theory Spec2Isabelle
  imports Complex_Main
begin

section \<open>Decimal arithmetic as the source uses it\<close>

text \<open>
  Every amount in the source is a \<^verbatim>\<open>Decimal\<close> of the decimal.js library.  The library is
  never configured outside the test setup, so its defaults apply: the result of every
  \<^verbatim>\<open>add\<close>, \<^verbatim>\<open>sub\<close>, \<^verbatim>\<open>mul\<close> and \<^verbatim>\<open>div\<close> is rounded to \<^verbatim>\<open>precision = 20\<close> significant
  digits, half away from zero (\<^verbatim>\<open>ROUND_HALF_UP\<close>); the constructor, the comparisons,
  \<^verbatim>\<open>floor\<close>, \<^verbatim>\<open>ceil\<close> and the conversion to a string and back are exact.

  A finite decimal \<open>Dec c e\<close> has a coefficient and an exponent and stands for \<open>c * 10^e\<close>.
  Two of them can stand for the same number, so numbers are compared with \<open>val\<close> or with
  the comparison functions, not with equality.
\<close>

datatype dec = Dec (coef: int) (expo: int)

definition val :: "dec \<Rightarrow> rat" where
  "val d = of_int (coef d) * 10 powi (expo d)"

text \<open>
  \<open>ilog10 n\<close> is the position of the leading digit of \<open>n\<close>: the least \<open>k\<close> with
  \<open>n < 10^(k+1)\<close>, found by running through the powers of ten.
\<close>

function ilog10_from :: "nat \<Rightarrow> nat \<Rightarrow> nat \<Rightarrow> nat" where
  "ilog10_from k p n = (if n < p \<or> p = 0 then k else ilog10_from (k + 1) (p * 10) n)"
  by pat_completeness auto
termination
  by (relation "measure (\<lambda>(k, p, n). n + 1 - p)") auto

declare ilog10_from.simps [simp del]

definition ilog10 :: "nat \<Rightarrow> nat" where
  "ilog10 n = ilog10_from 0 10 n"

definition ndigits :: "int \<Rightarrow> nat" where
  "ndigits c = Suc (ilog10 (nat \<bar>c\<bar>))"

text \<open>
  \<open>finalise sd d\<close> rounds \<open>d\<close> to \<open>sd\<close> significant digits: the \<open>k\<close> surplus digits of the
  coefficient are cut off and the rest is rounded half away from zero.
\<close>

definition finalise :: "nat \<Rightarrow> dec \<Rightarrow> dec" where
  "finalise sd d =
     (let c = coef d; e = expo d; k = ndigits c - sd
      in if c = 0 \<or> k = 0 then d
         else Dec (sgn c * ((\<bar>c\<bar> + 5 * 10 ^ (k - 1)) div 10 ^ k)) (e + int k))"

definition precision :: nat where
  "precision = 20"

definition Decimal :: "int \<Rightarrow> dec" where
  "Decimal n = Dec n 0"

definition scaled :: "dec \<Rightarrow> int \<Rightarrow> int" where
  "scaled x e = coef x * 10 ^ nat (expo x - e)"

definition d_mul :: "dec \<Rightarrow> dec \<Rightarrow> dec" where
  "d_mul x y = finalise precision (Dec (coef x * coef y) (expo x + expo y))"

definition d_add :: "dec \<Rightarrow> dec \<Rightarrow> dec" where
  "d_add x y =
     (let e = min (expo x) (expo y) in finalise precision (Dec (scaled x e + scaled y e) e))"

definition d_sub :: "dec \<Rightarrow> dec \<Rightarrow> dec" where
  "d_sub x y =
     (let e = min (expo x) (expo y) in finalise precision (Dec (scaled x e - scaled y e) e))"

text \<open>
  Division of finite decimals with a divisor other than zero: \<open>e\<close> is the decimal exponent
  of the exact quotient \<open>n / d\<close> (\<open>10^e \<le> n / d < 10^(e+1)\<close>), \<open>t\<close> the exponent of its last
  kept digit, and \<open>m\<close> the quotient in units of \<open>10^t\<close>, rounded half up.  The callers below
  test for a zero divisor before they divide.
\<close>

definition d_div :: "dec \<Rightarrow> dec \<Rightarrow> dec" where
  "d_div x y =
     (let n = \<bar>coef x\<bar>; d = \<bar>coef y\<bar>; s = sgn (coef x) * sgn (coef y)
      in if n = 0 \<or> d = 0 then Dec 0 0
         else
           let e = (if d \<le> n then int (ilog10 (nat (n div d)))
                    else - int (Suc (ilog10 (nat ((d - 1) div n)))));
               t = e - int precision + 1;
               m = (if 0 \<le> t then (2 * n + d * 10 ^ nat t) div (2 * d * 10 ^ nat t)
                    else (2 * n * 10 ^ nat (- t) + d) div (2 * d))
           in Dec (s * m) (t + expo x - expo y))"

definition d_lt :: "dec \<Rightarrow> dec \<Rightarrow> bool" where
  "d_lt x y = (let e = min (expo x) (expo y) in scaled x e < scaled y e)"

definition d_lte :: "dec \<Rightarrow> dec \<Rightarrow> bool" where
  "d_lte x y = (let e = min (expo x) (expo y) in scaled x e \<le> scaled y e)"

definition d_gt :: "dec \<Rightarrow> dec \<Rightarrow> bool" where
  "d_gt x y = d_lt y x"

definition d_gte :: "dec \<Rightarrow> dec \<Rightarrow> bool" where
  "d_gte x y = d_lte y x"

definition d_floor :: "dec \<Rightarrow> dec" where
  "d_floor d = (if 0 \<le> expo d then Dec (coef d * 10 ^ nat (expo d)) 0
                else Dec (coef d div 10 ^ nat (- expo d)) 0)"

definition d_ceil :: "dec \<Rightarrow> dec" where
  "d_ceil d = (if 0 \<le> expo d then Dec (coef d * 10 ^ nat (expo d)) 0
               else Dec (- ((- coef d) div 10 ^ nat (- expo d))) 0)"

text \<open>
  \<open>toInt\<close> reads an integer-valued decimal back as an integer: it is what
  \<^verbatim>\<open>x.toString()\<close> followed by \<^verbatim>\<open>new Decimal(...)\<close> or by a reader of the string sees.
\<close>

definition toInt :: "dec \<Rightarrow> int" where
  "toInt d = coef (d_floor d)"

section \<open>Decimals that are not finite\<close>

text \<open>
  A \<^verbatim>\<open>Decimal\<close> can also be \<^verbatim>\<open>Infinity\<close>, \<^verbatim>\<open>-Infinity\<close> or \<^verbatim>\<open>NaN\<close>: the library does not throw
  on a division by zero, it returns one of these.  The functions below extend the
  arithmetic to them the way the library does.  A zero carries no sign here, so a zero
  divisor stands for \<^verbatim>\<open>+0\<close>; the source never builds a negative zero from a numeral
  without a sign.
\<close>

datatype number = Finite dec | Infinity | NegInfinity | NaN

definition n_sign :: "number \<Rightarrow> int" where
  "n_sign x = (case x of Finite a \<Rightarrow> sgn (coef a) | Infinity \<Rightarrow> 1 | NegInfinity \<Rightarrow> - 1
               | NaN \<Rightarrow> 0)"

definition n_rank :: "number \<Rightarrow> int" where
  "n_rank x = (case x of Infinity \<Rightarrow> 1 | NegInfinity \<Rightarrow> - 1 | _ \<Rightarrow> 0)"

definition of_sign :: "int \<Rightarrow> number" where
  "of_sign s = (if s = 0 then NaN else if 0 < s then Infinity else NegInfinity)"

fun n_neg :: "number \<Rightarrow> number" where
  "n_neg (Finite a) = Finite (Dec (- coef a) (expo a))"
| "n_neg Infinity = NegInfinity"
| "n_neg NegInfinity = Infinity"
| "n_neg NaN = NaN"

fun n_plus :: "number \<Rightarrow> number \<Rightarrow> number" where
  "n_plus (Finite a) (Finite b) = Finite (d_add a b)"
| "n_plus NaN y = NaN"
| "n_plus x NaN = NaN"
| "n_plus (Finite a) y = y"
| "n_plus x (Finite b) = x"
| "n_plus x y = (if x = y then x else NaN)"

fun n_minus :: "number \<Rightarrow> number \<Rightarrow> number" where
  "n_minus (Finite a) (Finite b) = Finite (d_sub a b)"
| "n_minus NaN y = NaN"
| "n_minus x NaN = NaN"
| "n_minus (Finite a) y = n_neg y"
| "n_minus x (Finite b) = x"
| "n_minus x y = (if x = y then NaN else x)"

fun n_times :: "number \<Rightarrow> number \<Rightarrow> number" where
  "n_times (Finite a) (Finite b) = Finite (d_mul a b)"
| "n_times x y = (if x = NaN \<or> y = NaN then NaN else of_sign (n_sign x * n_sign y))"

fun n_div :: "number \<Rightarrow> number \<Rightarrow> number" where
  "n_div (Finite a) (Finite b) =
     (if coef b = 0 then of_sign (sgn (coef a)) else Finite (d_div a b))"
| "n_div NaN y = NaN"
| "n_div x NaN = NaN"
| "n_div (Finite a) y = Finite (Dec 0 0)"
| "n_div x (Finite b) = of_sign (n_sign x * (if coef b < 0 then - 1 else 1))"
| "n_div x y = NaN"

fun n_lt :: "number \<Rightarrow> number \<Rightarrow> bool" where
  "n_lt (Finite a) (Finite b) = d_lt a b"
| "n_lt x y = (x \<noteq> NaN \<and> y \<noteq> NaN \<and> n_rank x < n_rank y)"

definition n_gte :: "number \<Rightarrow> number \<Rightarrow> bool" where
  "n_gte x y = (x \<noteq> NaN \<and> y \<noteq> NaN \<and> \<not> n_lt x y)"

text \<open>
  \<^verbatim>\<open>Date.now()\<close> written into a string: the decimal numeral of a time in milliseconds.
\<close>

definition digit_char :: "nat \<Rightarrow> char" where
  "digit_char d = ''0123456789'' ! d"

function show_nat :: "nat \<Rightarrow> string" where
  "show_nat n = (if n < 10 then [digit_char n] else show_nat (n div 10) @ [digit_char (n mod 10)])"
  by pat_completeness auto
termination
  by (relation "measure (\<lambda>n. n)") auto

declare show_nat.simps [simp del]

definition show_int :: "int \<Rightarrow> string" where
  "show_int i = (if i < 0 then ''-'' @ show_nat (nat (- i)) else show_nat (nat i))"

section \<open>Opportunities\<close>

text \<open>
  An opportunity is an object with whatever fields its producer sets; a field that is not
  set is \<open>None\<close>.  The amounts are kept as strings written by \<^verbatim>\<open>toString\<close> and read back by
  \<^verbatim>\<open>new Decimal\<close>, so a field holds the number itself.  The pair of an opportunity is the
  name of the pair or the object with its two token addresses.
\<close>

record tokenPair =
  tokenA :: string
  tokenB :: string

datatype pair_value = PairName string | PairObject tokenPair

record opportunity =
  opportunityId :: "string option"
  type :: "string option"
  pair :: "pair_value option"
  buyDex :: "string option"
  sellDex :: "string option"
  buyPrice :: "number option"
  sellPrice :: "number option"
  priceDifference :: "number option"
  priceDifferencePercent :: "number option"
  tradeAmount :: "number option"
  optimalAmount :: "number option"
  grossProfitUSD :: "number option"
  gasCostUSD :: "number option"
  swapFeesUSD :: "number option"
  netProfitUSD :: "number option"
  profitWithSafetyMargin :: "number option"
  profitMargin :: "number option"
  buyLiquidityUSD :: "number option"
  sellLiquidityUSD :: "number option"
  path :: "string option"
  dex1 :: "string option"
  dex2 :: "string option"
  buyPairAddress :: "string option"
  sellPairAddress :: "string option"
  blockNumber :: "string option"
  timestamp :: "int option"
  expiresAt :: "int option"
  "qualified" :: "bool option"
  executed :: "bool option"

definition no_fields :: opportunity where
  "no_fields =
     \<lparr>opportunityId = None, type = None, pair = None, buyDex = None, sellDex = None,
      buyPrice = None, sellPrice = None, priceDifference = None, priceDifferencePercent = None,
      tradeAmount = None, optimalAmount = None, grossProfitUSD = None, gasCostUSD = None,
      swapFeesUSD = None, netProfitUSD = None, profitWithSafetyMargin = None,
      profitMargin = None, buyLiquidityUSD = None, sellLiquidityUSD = None, path = None,
      dex1 = None, dex2 = None, buyPairAddress = None, sellPairAddress = None,
      blockNumber = None, timestamp = None, expiresAt = None, qualified = None,
      executed = None\<rparr>"

section \<open>UniswapV2Math\<close>

datatype error =
    InvalidAmountIn | InvalidReserveIn | InvalidReserveOut | InvalidInput | InsufficientLiquidity

definition FEE_DENOMINATOR :: int where
  "FEE_DENOMINATOR = 1000"

definition FEE_NUMERATOR :: int where
  "FEE_NUMERATOR = 997"

text \<open>
  Amounts and reserves are integer numerals (wei); the result is the integer that the
  returned string denotes.  A \<^verbatim>\<open>throw\<close> is the \<open>Inl\<close> branch.
\<close>

definition getAmountOut :: "int \<Rightarrow> int \<Rightarrow> int \<Rightarrow> error + int" where
  "getAmountOut amountIn reserveIn reserveOut =
     (let amountInDecimal = Decimal amountIn;
          reserveInDecimal = Decimal reserveIn;
          reserveOutDecimal = Decimal reserveOut
      in if d_lte amountInDecimal (Decimal 0) then Inl InvalidAmountIn
         else if d_lte reserveInDecimal (Decimal 0) then Inl InvalidReserveIn
         else if d_lte reserveOutDecimal (Decimal 0) then Inl InvalidReserveOut
         else
           let amountInWithFee = d_mul amountInDecimal (Decimal FEE_NUMERATOR);
               numerator = d_mul amountInWithFee reserveOutDecimal;
               denominator =
                 d_add (d_mul reserveInDecimal (Decimal FEE_DENOMINATOR)) amountInWithFee;
               amountOut = d_floor (d_div numerator denominator)
           in Inr (toInt amountOut))"

definition getAmountIn :: "int \<Rightarrow> int \<Rightarrow> int \<Rightarrow> error + int" where
  "getAmountIn amountOut reserveIn reserveOut =
     (let amountOutDecimal = Decimal amountOut;
          reserveInDecimal = Decimal reserveIn;
          reserveOutDecimal = Decimal reserveOut
      in if d_lte amountOutDecimal (Decimal 0) \<or> d_lte reserveInDecimal (Decimal 0)
            \<or> d_lte reserveOutDecimal (Decimal 0) then Inl InvalidInput
         else if d_gte amountOutDecimal reserveOutDecimal then Inl InsufficientLiquidity
         else
           let numerator =
                 d_mul (d_mul reserveInDecimal amountOutDecimal) (Decimal FEE_DENOMINATOR);
               denominator =
                 d_mul (d_sub reserveOutDecimal amountOutDecimal) (Decimal FEE_NUMERATOR);
               amountIn = d_add (d_ceil (d_div numerator denominator)) (Decimal 1)
           in Inr (toInt amountIn))"

text \<open>
  \<^verbatim>\<open>findOptimalTradeSize\<close>.  A pool is the object with the two reserve fields the function
  reads.  The body of the \<^verbatim>\<open>while\<close> loop is \<open>search_step\<close>, its test \<open>search_continues\<close>;
  the inner \<^verbatim>\<open>try\<close> is \<open>netProfitAt\<close>, whose \<open>Inl\<close> is the \<^verbatim>\<open>catch\<close> branch.  The loop need
  not end (see \<open>search_loop\<close> below), so the function returns an option: \<open>None\<close> when the
  source never returns.
\<close>

record pool =
  reserveIn :: int
  reserveOut :: int

record search_state =
  low :: dec
  high :: dec
  optimalAmount :: dec
  maxProfit :: dec

definition netProfitAt :: "pool \<Rightarrow> pool \<Rightarrow> dec \<Rightarrow> dec \<Rightarrow> error + dec" where
  "netProfitAt poolA poolB gasCostDecimal mid =
     (case getAmountOut (toInt mid) (reserveIn poolA) (reserveOut poolA) of
        Inl err \<Rightarrow> Inl err
      | Inr amountOutB \<Rightarrow>
          (case getAmountOut amountOutB (reserveIn poolB) (reserveOut poolB) of
             Inl err \<Rightarrow> Inl err
           | Inr amountOutA \<Rightarrow> Inr (d_sub (d_sub (Decimal amountOutA) mid) gasCostDecimal)))"

definition midpoint :: "search_state \<Rightarrow> dec" where
  "midpoint s = d_floor (d_div (d_add (low s) (high s)) (Decimal 2))"

definition search_step :: "pool \<Rightarrow> pool \<Rightarrow> dec \<Rightarrow> search_state \<Rightarrow> search_state" where
  "search_step poolA poolB gasCostDecimal s =
     (let mid = midpoint s
      in if d_lte mid (Decimal 0) then s\<lparr>low := d_add mid (Decimal 1)\<rparr>
         else
           case netProfitAt poolA poolB gasCostDecimal mid of
             Inl err \<Rightarrow> s\<lparr>low := d_add mid (Decimal 1)\<rparr>
           | Inr netProfit \<Rightarrow>
               (let s1 = (if d_gt netProfit (maxProfit s)
                          then s\<lparr>maxProfit := netProfit, optimalAmount := mid\<rparr> else s)
                in if d_gt netProfit (Decimal 0) then s1\<lparr>low := mid\<rparr> else s1\<lparr>high := mid\<rparr>))"

definition search_continues :: "search_state \<Rightarrow> bool" where
  "search_continues s = d_gt (d_sub (high s) (low s)) (Decimal 1)"

partial_function (option) search_loop ::
  "pool \<Rightarrow> pool \<Rightarrow> dec \<Rightarrow> search_state \<Rightarrow> search_state option" where
  "search_loop poolA poolB gasCostDecimal s =
     (if search_continues s
      then search_loop poolA poolB gasCostDecimal (search_step poolA poolB gasCostDecimal s)
      else Some s)"

definition search_start :: "int \<Rightarrow> search_state" where
  "search_start maxAmount =
     \<lparr>low = Decimal 1, high = Decimal maxAmount, optimalAmount = Decimal 0,
      maxProfit = Decimal 0\<rparr>"

definition findOptimalTradeSize :: "pool \<Rightarrow> pool \<Rightarrow> int \<Rightarrow> int \<Rightarrow> (dec \<times> dec) option" where
  "findOptimalTradeSize poolA poolB maxAmount gasCost =
     map_option (\<lambda>s. (optimalAmount s, maxProfit s))
       (search_loop poolA poolB (Decimal gasCost) (search_start maxAmount))"

text \<open>
  The amounts at which a run of the loop from state \<open>s\<close> evaluates the profit: the midpoint
  of \<open>s\<close>, and the amounts probed from the next state on.
\<close>

inductive probed :: "pool \<Rightarrow> pool \<Rightarrow> dec \<Rightarrow> search_state \<Rightarrow> dec \<Rightarrow> bool"
  for poolA poolB gasCostDecimal where
  here: "search_continues s \<Longrightarrow> probed poolA poolB gasCostDecimal s (midpoint s)"
| later: "search_continues s \<Longrightarrow>
          probed poolA poolB gasCostDecimal (search_step poolA poolB gasCostDecimal s) m \<Longrightarrow>
          probed poolA poolB gasCostDecimal s m"

text \<open>
  What a finished run from state \<open>s\<close> to the final state \<open>r\<close> has done to the best
  amount so far: it kept it, or replaced it by a probed amount of strictly larger profit; and
  no probed amount has a larger profit than the final one.
\<close>

definition improves :: "pool \<Rightarrow> pool \<Rightarrow> dec \<Rightarrow> search_state \<Rightarrow> search_state \<Rightarrow> bool" where
  "improves poolA poolB g s r \<longleftrightarrow>
     val (maxProfit s) \<le> val (maxProfit r) \<and>
     (optimalAmount r = optimalAmount s \<and> maxProfit r = maxProfit s \<or>
      probed poolA poolB g s (optimalAmount r) \<and>
      netProfitAt poolA poolB g (optimalAmount r) = Inr (maxProfit r) \<and>
      val (maxProfit s) < val (maxProfit r)) \<and>
     (\<forall>m p. probed poolA poolB g s m \<longrightarrow> netProfitAt poolA poolB g m = Inr p
        \<longrightarrow> val p \<le> val (maxProfit r))"

text \<open>
  The run of the loop with the amounts it probes written down: \<open>search_trace n\<close> makes at most
  \<open>n\<close> passes through the loop from the state \<open>s\<close> and returns the midpoints of these passes,
  in order, after the ones given, and the state it has reached.
\<close>

fun search_trace ::
  "nat \<Rightarrow> pool \<Rightarrow> pool \<Rightarrow> dec \<Rightarrow> dec list \<Rightarrow> search_state \<Rightarrow> dec list \<times> search_state" where
  "search_trace 0 poolA poolB gasCostDecimal probes s = (probes, s)"
| "search_trace (Suc n) poolA poolB gasCostDecimal probes s =
     (if search_continues s
      then search_trace n poolA poolB gasCostDecimal (probes @ [midpoint s])
             (search_step poolA poolB gasCostDecimal s)
      else (probes, s))"

section \<open>Web3Manager\<close>

text \<open>
  The manager with the fields that \<^verbatim>\<open>executeWithFailover\<close> reads and writes; the providers
  are numbered from 0, and there is at least one (the constructor reads the first).  An
  operation is given the number of the attempt and the provider it runs on, and returns
  \<open>None\<close> when it throws or times out.  The clock is read twice after a failure, first
  for \<^verbatim>\<open>lastFailureTime\<close> and then in \<^verbatim>\<open>shouldRotateProvider\<close>: \<open>clock k\<close> is that pair of
  readings for attempt \<open>k\<close>.  The \<^verbatim>\<open>throw\<close> after the last attempt is the result \<open>None\<close>.
\<close>

record web3_manager =
  providerCount :: nat
  currentProviderIndex :: nat
  failoverThreshold :: int
  failureCount :: int
  lastFailureTime :: int
  cooldownPeriod :: int

definition new_Web3Manager :: "nat \<Rightarrow> int option \<Rightarrow> int option \<Rightarrow> web3_manager" where
  "new_Web3Manager providers optFailoverThreshold optCooldownPeriod =
     \<lparr>providerCount = providers,
      currentProviderIndex = 0,
      failoverThreshold =
        (case optFailoverThreshold of None \<Rightarrow> 3 | Some t \<Rightarrow> if t = 0 then 3 else t),
      failureCount = 0,
      lastFailureTime = 0,
      cooldownPeriod =
        (case optCooldownPeriod of None \<Rightarrow> 60000 | Some c \<Rightarrow> if c = 0 then 60000 else c)\<rparr>"

definition shouldRotateProvider :: "web3_manager \<Rightarrow> int \<Rightarrow> bool" where
  "shouldRotateProvider m now =
     (let timeSinceLastFailure = now - lastFailureTime m
      in failoverThreshold m \<le> failureCount m \<and> cooldownPeriod m < timeSinceLastFailure)"

definition rotateProvider :: "web3_manager \<Rightarrow> web3_manager" where
  "rotateProvider m =
     m\<lparr>currentProviderIndex := (currentProviderIndex m + 1) mod providerCount m,
       failureCount := 0\<rparr>"

definition on_failure :: "web3_manager \<Rightarrow> int \<times> int \<Rightarrow> web3_manager" where
  "on_failure m now =
     (let m1 = m\<lparr>failureCount := failureCount m + 1, lastFailureTime := fst now\<rparr>
      in if shouldRotateProvider m1 (snd now) then rotateProvider m1 else m1)"

fun attempts ::
  "(nat \<Rightarrow> nat \<Rightarrow> 'a option) \<Rightarrow> (nat \<Rightarrow> int \<times> int) \<Rightarrow> nat \<Rightarrow> nat \<Rightarrow> web3_manager
     \<Rightarrow> web3_manager \<times> 'a option" where
  "attempts operation clock 0 attempt m = (m, None)"
| "attempts operation clock (Suc n) attempt m =
     (case operation attempt (currentProviderIndex m) of
        Some result \<Rightarrow> (m\<lparr>failureCount := 0, lastFailureTime := 0\<rparr>, Some result)
      | None \<Rightarrow> attempts operation clock n (attempt + 1) (on_failure m (clock attempt)))"

definition executeWithFailover ::
  "web3_manager \<Rightarrow> (nat \<Rightarrow> nat \<Rightarrow> 'a option) \<Rightarrow> nat option \<Rightarrow> (nat \<Rightarrow> int \<times> int)
     \<Rightarrow> web3_manager \<times> 'a option" where
  "executeWithFailover m operation optMaxAttempts clock =
     (let maxAttempts = (case optMaxAttempts of None \<Rightarrow> providerCount m
                         | Some a \<Rightarrow> if a = 0 then providerCount m else a)
      in attempts operation clock maxAttempts 0 m)"

section \<open>DatabaseService\<close>

text \<open>
  The table \<^verbatim>\<open>opportunities\<close> is the list of its rows, oldest first; a row is an opportunity
  with the 22 columns that the statement writes (the column \<^verbatim>\<open>created_at\<close>, filled by the
  database, is left out).  \<open>params\<close> is the parameter list of the statement.  An
  \<^verbatim>\<open>INSERT OR REPLACE\<close> deletes the rows with the same primary key and appends the new
  one; a \<^verbatim>\<open>NULL\<close> key equals no other key; a \<^verbatim>\<open>NULL\<close> in a \<^verbatim>\<open>NOT NULL\<close> column makes the
  statement fail.  Every failure is caught and logged by \<^verbatim>\<open>storeOpportunity\<close>, which then
  leaves the table as it was.
\<close>

record database =
  isInitialized :: bool
  opportunities :: "opportunity list"

definition or_null :: "string option \<Rightarrow> string option" where
  "or_null v = (case v of None \<Rightarrow> None | Some s \<Rightarrow> if s = [] then None else Some s)"

definition params :: "opportunity \<Rightarrow> opportunity" where
  "params opp =
     no_fields
       \<lparr>opportunityId := opportunityId opp,
        type := Some (case or_null (type opp) of None \<Rightarrow> ''direct'' | Some t \<Rightarrow> t),
        pair := pair opp,
        buyDex := or_null (buyDex opp),
        sellDex := or_null (sellDex opp),
        buyPrice := buyPrice opp,
        sellPrice := sellPrice opp,
        priceDifference := priceDifference opp,
        priceDifferencePercent := priceDifferencePercent opp,
        tradeAmount := tradeAmount opp,
        grossProfitUSD := grossProfitUSD opp,
        gasCostUSD := gasCostUSD opp,
        swapFeesUSD := Some (case swapFeesUSD opp of None \<Rightarrow> Finite (Decimal 0) | Some f \<Rightarrow> f),
        netProfitUSD := netProfitUSD opp,
        profitWithSafetyMargin := profitWithSafetyMargin opp,
        path := or_null (path opp),
        dex1 := or_null (dex1 opp),
        dex2 := or_null (dex2 opp),
        buyPairAddress := or_null (buyPairAddress opp),
        sellPairAddress := or_null (sellPairAddress opp),
        blockNumber := or_null (blockNumber opp),
        timestamp := timestamp opp\<rparr>"

definition not_null_ok :: "opportunity \<Rightarrow> bool" where
  "not_null_ok row \<longleftrightarrow> type row \<noteq> None \<and> pair row \<noteq> None \<and> timestamp row \<noteq> None"

definition insert_or_replace :: "opportunity \<Rightarrow> opportunity list \<Rightarrow> opportunity list" where
  "insert_or_replace row rows =
     (if opportunityId row = None then rows @ [row]
      else filter (\<lambda>r. opportunityId r \<noteq> opportunityId row) rows @ [row])"

definition storeOpportunity :: "database \<Rightarrow> opportunity \<Rightarrow> database" where
  "storeOpportunity db opp =
     (if \<not> isInitialized db then db
      else if not_null_ok (params opp)
        then db\<lparr>opportunities := insert_or_replace (params opp) (opportunities db)\<rparr>
        else db)"

definition rows_with_id :: "database \<Rightarrow> string \<Rightarrow> opportunity list" where
  "rows_with_id db i = filter (\<lambda>r. opportunityId r = Some i) (opportunities db)"

section \<open>TradingStrategyEngine\<close>

text \<open>
  The options are the numbers that the functions below read; \<open>default_options\<close> are the
  values of the constructor.  Products of JavaScript numbers (\<^verbatim>\<open>minProfitMargin * 100\<close>) are
  taken in decimal arithmetic, which gives the same number for the default options.  The
  data of a DEX is the object built by \<^verbatim>\<open>analyzeTokenPair\<close>: the reserves are integer
  numerals, so \<^verbatim>\<open>new Decimal\<close> accepts them and the \<^verbatim>\<open>catch\<close> branch of
  \<^verbatim>\<open>calculateOptimalTradeSize\<close> with its fixed fallback amount is not entered.  A gas price
  that is not a numeral is \<open>None\<close>.  The clock is read once in a call, as \<open>now\<close>.
\<close>

record options =
  minProfitUSD :: dec
  minProfitMargin :: dec
  maxPositionSizeUSD :: int
  gasBuffer :: dec
  opportunityTimeout :: int
  minLiquidityUSD :: dec

definition default_options :: options where
  "default_options =
     \<lparr>minProfitUSD = Decimal 10, minProfitMargin = Dec 5 (- 3), maxPositionSizeUSD = 10000,
      gasBuffer = Dec 12 (- 1), opportunityTimeout = 30000, minLiquidityUSD = Decimal 100000\<rparr>"

record TradingStrategyEngine =
  options :: options
  opportunitiesQualified :: nat

record priceData =
  dex :: string
  price0 :: dec
  liquidityUSD :: dec
  reserves :: "int list"
  pairAddress :: string

definition calculateOptimalTradeSize :: "options \<Rightarrow> priceData \<Rightarrow> priceData \<Rightarrow> dec option" where
  "calculateOptimalTradeSize = (\<lambda>opts buyDex sellDex.
     if length (reserves buyDex) < 2 \<or> length (reserves sellDex) < 2 then Some (Decimal 0)
     else
       let buyReserves = map Decimal (reserves buyDex);
           sellReserves = map Decimal (reserves sellDex)
       in if d_lte (buyReserves ! 0) (Decimal 0) \<or> d_lte (buyReserves ! 1) (Decimal 0)
             \<or> d_lte (sellReserves ! 0) (Decimal 0) \<or> d_lte (sellReserves ! 1) (Decimal 0)
          then Some (Decimal 0)
          else
            let poolA = \<lparr>reserveIn = toInt (buyReserves ! 0),
                         reserveOut = toInt (buyReserves ! 1)\<rparr>;
                poolB = \<lparr>reserveIn = toInt (sellReserves ! 1),
                         reserveOut = toInt (sellReserves ! 0)\<rparr>;
                gasCost = 60
            in case findOptimalTradeSize poolA poolB (maxPositionSizeUSD opts) gasCost of
                 None \<Rightarrow> None
               | Some result \<Rightarrow>
                   (let optimalAmount = fst result
                    in if d_lte optimalAmount (Decimal 0) then Some (Decimal 0)
                       else Some optimalAmount))"

definition calculateGrossProfit :: "dec \<Rightarrow> dec \<Rightarrow> dec \<Rightarrow> number" where
  "calculateGrossProfit = (\<lambda>amount buyPrice sellPrice.
     let tokensReceived = n_div (Finite amount) (Finite buyPrice);
         usdReceived = n_times tokensReceived (Finite sellPrice);
         grossProfit = n_minus usdReceived (Finite amount)
     in grossProfit)"

definition calculateGasCost :: "options \<Rightarrow> int option \<Rightarrow> dec" where
  "calculateGasCost opts gasPrice =
     (case gasPrice of
        None \<Rightarrow> Decimal 0
      | Some price \<Rightarrow>
          (let estimatedGas = 300000;
               gasWithBuffer = d_mul (Decimal estimatedGas) (gasBuffer opts);
               gasCostWei = d_mul gasWithBuffer (Decimal price);
               ethPriceUSD = Decimal 2000;
               gasCostUSD = d_mul (d_div gasCostWei (Decimal (10 ^ 18))) ethPriceUSD
           in gasCostUSD))"

definition generateOpportunityId :: "int \<Rightarrow> tokenPair \<Rightarrow> string \<Rightarrow> string \<Rightarrow> string \<Rightarrow> string" where
  "generateOpportunityId = (\<lambda>now pair buyDex sellDex blockNumber.
     tokenA pair @ ''-'' @ tokenB pair @ ''-'' @ buyDex @ ''-'' @ sellDex @ ''-'' @ blockNumber
       @ ''-'' @ show_int now)"

text \<open>
  The result of \<^verbatim>\<open>calculateArbitrageOpportunity\<close> is \<open>None\<close> when the search for the trade
  size does not return, \<open>Some None\<close> for \<^verbatim>\<open>null\<close>, and \<open>Some (Some opp)\<close> for an opportunity.
\<close>

definition calculateArbitrageOpportunity ::
  "options \<Rightarrow> int \<Rightarrow> tokenPair \<Rightarrow> priceData \<Rightarrow> priceData \<Rightarrow> int option \<Rightarrow> string
     \<Rightarrow> opportunity option option" where
  "calculateArbitrageOpportunity = (\<lambda>opts now pair buyDex sellDex gasPrice blockNumber.
     let buyPrice = price0 buyDex;
         sellPrice = price0 sellDex;
         priceDiff = d_sub sellPrice buyPrice;
         priceDiffPercent =
           n_times (n_div (Finite priceDiff) (Finite buyPrice)) (Finite (Decimal 100))
     in if n_lt priceDiffPercent (Finite (d_mul (minProfitMargin opts) (Decimal 100)))
        then Some None
        else
          case calculateOptimalTradeSize opts buyDex sellDex of
            None \<Rightarrow> None
          | Some amount \<Rightarrow>
              let optimalAmount = amount
              in if d_lte optimalAmount (Decimal 0) then Some None
              else
                let grossProfit = calculateGrossProfit optimalAmount buyPrice sellPrice;
                    gasCost = calculateGasCost opts gasPrice;
                    netProfit = n_minus grossProfit (Finite gasCost);
                    profitMargin = n_div netProfit (Finite gasCost)
                in Some (Some (no_fields
                     \<lparr>opportunityId :=
                        Some (generateOpportunityId now pair (dex buyDex) (dex sellDex)
                                blockNumber),
                      pair := Some (PairObject pair),
                      buyDex := Some (dex buyDex),
                      sellDex := Some (dex sellDex),
                      buyPrice := Some (Finite buyPrice),
                      sellPrice := Some (Finite sellPrice),
                      priceDifference := Some (Finite priceDiff),
                      priceDifferencePercent := Some priceDiffPercent,
                      opportunity.optimalAmount := Some (Finite optimalAmount),
                      grossProfitUSD := Some grossProfit,
                      gasCostUSD := Some (Finite gasCost),
                      netProfitUSD := Some netProfit,
                      profitMargin := Some profitMargin,
                      buyLiquidityUSD := Some (Finite (liquidityUSD buyDex)),
                      sellLiquidityUSD := Some (Finite (liquidityUSD sellDex)),
                      buyPairAddress := Some (pairAddress buyDex),
                      sellPairAddress := Some (pairAddress sellDex),
                      blockNumber := Some blockNumber,
                      timestamp := Some now,
                      expiresAt := Some (now + opportunityTimeout opts),
                      qualified := Some False,
                      executed := Some False\<rparr>)))"

text \<open>
  \<^verbatim>\<open>qualifyOpportunity\<close> reads four amounts with \<^verbatim>\<open>new Decimal\<close>, which throws on a field
  that is not set; the \<^verbatim>\<open>catch\<close> returns \<^verbatim>\<open>false\<close>.  A comparison with an \<^verbatim>\<open>expiresAt\<close> that
  is not set is false.  The result is the engine, the opportunity (both are updated in
  place by the source) and the returned boolean.
\<close>

definition qualifyOpportunity ::
  "TradingStrategyEngine \<Rightarrow> int \<Rightarrow> opportunity \<Rightarrow> TradingStrategyEngine \<times> opportunity \<times> bool"
  where
  "qualifyOpportunity engine now opp =
     (if netProfitUSD opp = None \<or> profitMargin opp = None \<or> buyLiquidityUSD opp = None
         \<or> sellLiquidityUSD opp = None
      then (engine, opp, False)
      else
        let netProfit = the (netProfitUSD opp);
            profitMargin = the (profitMargin opp);
            buyLiquidity = the (buyLiquidityUSD opp);
            sellLiquidity = the (sellLiquidityUSD opp)
        in if n_lt netProfit (Finite (options.minProfitUSD (options engine)))
           then (engine, opp, False)
           else if n_lt profitMargin (Finite (minProfitMargin (options engine)))
           then (engine, opp, False)
           else if n_lt buyLiquidity (Finite (minLiquidityUSD (options engine)))
                   \<or> n_lt sellLiquidity (Finite (minLiquidityUSD (options engine)))
           then (engine, opp, False)
           else if (case expiresAt opp of None \<Rightarrow> False | Some expires \<Rightarrow> expires < now)
           then (engine, opp, False)
           else (engine\<lparr>opportunitiesQualified := opportunitiesQualified engine + 1\<rparr>,
                 opp\<lparr>qualified := Some True\<rparr>, True))"

text \<open>
  The order in which the thresholds are stated: a number is at least a finite bound when
  its value is, \<^verbatim>\<open>Infinity\<close> is at least every bound, and \<^verbatim>\<open>-Infinity\<close> and \<^verbatim>\<open>NaN\<close> are at
  least none.
\<close>

definition at_least :: "number \<Rightarrow> dec \<Rightarrow> bool" where
  "at_least x b =
     (case x of Finite a \<Rightarrow> val b \<le> val a | Infinity \<Rightarrow> True | NegInfinity \<Rightarrow> False
      | NaN \<Rightarrow> False)"

section \<open>ComprehensiveArbitrageBot\<close>

text \<open>
  The triangular scan of the bot.  The configuration has the fields that the scan reads,
  with the values of the constructor in \<open>default_config\<close>; the statistics have the counters
  that the scan writes.  The price service is the function \<open>getPrice\<close>, from two tokens and
  the name of a DEX to the \<^verbatim>\<open>price0\<close> of the price data, \<open>None\<close> when the service throws or
  returns nothing.  The names of the DEXs are distinct and a triangular pair has three
  tokens, as in the constructor.  The clock is read once in a scan, as \<open>now\<close>.  Logging and
  the simulated execution change nothing that the scan reads.
\<close>

record triangularPair =
  name :: string
  tokens :: "string list"

record config =
  supportedDEXs :: "string list"
  triangularPairs :: "triangularPair list"
  minProfitUSD :: dec
  safetyMargin :: dec
  gasEstimate :: int
  ethPriceUSD :: int
  testMode :: bool
  enableRealPriceFetching :: bool

definition default_config :: config where
  "default_config =
     \<lparr>supportedDEXs = [''uniswap'', ''sushiswap''],
      triangularPairs =
        [\<lparr>name = ''WETH/USDC/USDT'',
          tokens = [''0xC02aaA39b223FE8D0A0e5C4F27eAD9083C756Cc2'',
                    ''0xA0b86991c6218b36c1d19d4a2e9eb0ce3606eb48'',
                    ''0xdAC17F958D2ee523a2206206994597C13D831ec7'']\<rparr>,
         \<lparr>name = ''WETH/WBTC/USDC'',
          tokens = [''0xC02aaA39b223FE8D0A0e5C4F27eAD9083C756Cc2'',
                    ''0x2260FAC5E5542a773Aa44fBCfeDf7C193bc2C599'',
                    ''0xA0b86991c6218b36c1d19d4a2e9eb0ce3606eb48'']\<rparr>],
      minProfitUSD = Decimal 10,
      safetyMargin = Dec 1 (- 1),
      gasEstimate = 300000,
      ethPriceUSD = 2000,
      testMode = True,
      enableRealPriceFetching = True\<rparr>"

record stats =
  opportunitiesFound :: nat
  triangularOpportunities :: nat
  totalProfit :: number
  scansCompleted :: nat

record ComprehensiveArbitrageBot =
  config :: config
  stats :: stats
  databaseService :: database

definition calculateGasCost_bot :: "config \<Rightarrow> int option \<Rightarrow> dec" where
  "calculateGasCost_bot cfg gasPrice =
     (case gasPrice of
        None \<Rightarrow> Decimal 0
      | Some price \<Rightarrow>
          (let gasUsed = Decimal (gasEstimate cfg);
               gasPriceWei = Decimal price;
               gasCostWei = d_mul gasUsed gasPriceWei;
               ethPriceUSD = Decimal (ethPriceUSD cfg);
               gasCostUSD = d_mul (d_div gasCostWei (Decimal (10 ^ 18))) ethPriceUSD
           in gasCostUSD))"

definition calculateTriangularSwapFees :: "number \<Rightarrow> number \<Rightarrow> number \<Rightarrow> number" where
  "calculateTriangularSwapFees amountA amountB amountC =
     (let feeRate = Finite (Dec 3 (- 3));
          fee1 = n_times amountA feeRate;
          fee2 = n_times amountB feeRate;
          fee3 = n_times amountC feeRate
      in n_plus (n_plus fee1 fee2) fee3)"

record trianglePrices =
  AB :: "dec option"
  BC :: "dec option"
  AC :: "dec option"

definition calculateTriangularArbitrage ::
  "config \<Rightarrow> int \<Rightarrow> triangularPair \<Rightarrow> string \<Rightarrow> string \<Rightarrow> trianglePrices \<Rightarrow> trianglePrices
     \<Rightarrow> int option \<Rightarrow> opportunity option" where
  "calculateTriangularArbitrage = (\<lambda>cfg now triangularPair dex1 dex2 prices1 prices2 gasPrice.
     if AB prices1 = None \<or> BC prices1 = None \<or> AC prices2 = None then None
     else
       let tradeAmount = Finite (Decimal 1000);
           amountB = n_div tradeAmount (Finite (the (AB prices1)));
           amountC = n_div amountB (Finite (the (BC prices1)));
           finalAmountA = n_times amountC (Finite (the (AC prices2)));
           grossProfit = n_minus finalAmountA tradeAmount;
           gasCostUSD = Finite (calculateGasCost_bot cfg gasPrice);
           swapFees = calculateTriangularSwapFees tradeAmount amountB amountC;
           totalCosts = n_plus gasCostUSD swapFees;
           netProfit = n_minus grossProfit totalCosts;
           profitWithSafetyMargin =
             n_times netProfit (Finite (d_sub (Decimal 1) (safetyMargin cfg)))
       in if n_lt profitWithSafetyMargin (Finite (config.minProfitUSD cfg)) then None
          else Some (no_fields
            \<lparr>opportunityId :=
               Some (''triangular-'' @ name triangularPair @ ''-'' @ dex1 @ ''-'' @ dex2 @ ''-''
                       @ show_int now),
             type := Some ''triangular'',
             pair := Some (PairName (name triangularPair)),
             path :=
               Some (tokens triangularPair ! 0 @ '' -> '' @ tokens triangularPair ! 1 @ '' -> ''
                       @ tokens triangularPair ! 2 @ '' -> '' @ tokens triangularPair ! 0),
             buyDex := Some dex1,
             sellDex := Some dex2,
             buyPrice := Some (Finite (the (AB prices1))),
             sellPrice := Some (Finite (the (AC prices2))),
             priceDifference := Some grossProfit,
             priceDifferencePercent :=
               Some (n_times (n_div grossProfit tradeAmount) (Finite (Decimal 100))),
             dex1 := Some dex1,
             dex2 := Some dex2,
             tradeAmount := Some tradeAmount,
             grossProfitUSD := Some grossProfit,
             gasCostUSD := Some gasCostUSD,
             swapFeesUSD := Some swapFees,
             netProfitUSD := Some netProfit,
             profitWithSafetyMargin := Some profitWithSafetyMargin,
             buyPairAddress := Some ''0x0000000000000000000000000000000000000000'',
             sellPairAddress := Some ''0x0000000000000000000000000000000000000000'',
             blockNumber := Some ''latest'',
             timestamp := Some now\<rparr>))"

fun pairs_in_order :: "'a list \<Rightarrow> ('a \<times> 'a) list" where
  "pairs_in_order [] = []"
| "pairs_in_order (x # xs) = map (Pair x) xs @ pairs_in_order xs"

definition detectTriangularArbitrage ::
  "config \<Rightarrow> (string \<Rightarrow> string \<Rightarrow> string \<Rightarrow> dec option) \<Rightarrow> int \<Rightarrow> triangularPair \<Rightarrow> int option
     \<Rightarrow> opportunity list" where
  "detectTriangularArbitrage cfg getPrice now triangularPair gasPrice =
     (let fetched =
            map (\<lambda>dexName.
                   (dexName,
                    \<lparr>AB = getPrice (tokens triangularPair ! 0) (tokens triangularPair ! 1) dexName,
                     BC = getPrice (tokens triangularPair ! 1) (tokens triangularPair ! 2) dexName,
                     AC = getPrice (tokens triangularPair ! 0) (tokens triangularPair ! 2) dexName\<rparr>))
              (supportedDEXs cfg);
          prices =
            filter (\<lambda>p. AB (snd p) \<noteq> None \<or> BC (snd p) \<noteq> None \<or> AC (snd p) \<noteq> None) fetched
      in if length prices < 2 then []
         else List.map_filter
                (\<lambda>p. calculateTriangularArbitrage cfg now triangularPair (fst (fst p))
                        (fst (snd p)) (snd (fst p)) (snd (snd p)) gasPrice)
                (pairs_in_order prices))"

text \<open>
  The test opportunities.  The source computes the direct ones with JavaScript numbers and
  prints them with \<^verbatim>\<open>toFixed\<close>; the numbers printed are the ones computed here in decimal
  arithmetic.  The triangular one is written out in the source.
\<close>

definition testDirectOpportunity :: "int \<Rightarrow> nat \<Rightarrow> string \<Rightarrow> string \<Rightarrow> string \<Rightarrow> opportunity" where
  "testDirectOpportunity now index pairName buy sell =
     (let basePrice = Decimal (2000 + int index * 100);
          priceDiff = d_add (Dec 5 (- 3)) (d_mul (Decimal (int index)) (Dec 1 (- 3)));
          buyPrice = basePrice;
          sellPrice = d_mul basePrice (d_add (Decimal 1) priceDiff);
          tradeAmount = Decimal 1000;
          grossProfit = d_div (d_mul (d_sub sellPrice buyPrice) tradeAmount) buyPrice;
          gasCost = Decimal 60;
          swapFees = d_mul (d_mul tradeAmount (Dec 3 (- 3))) (Decimal 2);
          netProfit = d_sub (d_sub grossProfit gasCost) swapFees;
          profitWithSafetyMargin = d_mul netProfit (Dec 9 (- 1))
      in no_fields
           \<lparr>opportunityId := Some (''test-direct-'' @ show_int now @ ''-'' @ show_nat index),
            type := Some ''direct'',
            pair := Some (PairName pairName),
            buyDex := Some buy,
            sellDex := Some sell,
            buyPrice := Some (Finite buyPrice),
            sellPrice := Some (Finite sellPrice),
            priceDifference := Some (Finite (d_sub sellPrice buyPrice)),
            priceDifferencePercent := Some (Finite (d_mul priceDiff (Decimal 100))),
            tradeAmount := Some (Finite tradeAmount),
            grossProfitUSD := Some (Finite grossProfit),
            gasCostUSD := Some (Finite gasCost),
            swapFeesUSD := Some (Finite swapFees),
            netProfitUSD := Some (Finite netProfit),
            profitWithSafetyMargin := Some (Finite profitWithSafetyMargin),
            timestamp := Some now\<rparr>)"

definition generateTestOpportunities :: "int \<Rightarrow> opportunity list" where
  "generateTestOpportunities now =
     [testDirectOpportunity now 0 ''WETH/USDC'' ''uniswap'' ''sushiswap'',
      testDirectOpportunity now 1 ''WETH/USDT'' ''sushiswap'' ''uniswap'',
      testDirectOpportunity now 2 ''WBTC/WETH'' ''uniswap'' ''sushiswap'',
      no_fields
        \<lparr>opportunityId := Some (''test-triangular-'' @ show_int now),
         type := Some ''triangular'',
         pair := Some (PairName ''WETH/USDC/USDT''),
         path := Some ''WETH -> USDC -> USDT -> WETH'',
         buyDex := Some ''uniswap'',
         sellDex := Some ''sushiswap'',
         buyPrice := Some (Finite (Dec 200000 (- 2))),
         sellPrice := Some (Finite (Dec 201250 (- 2))),
         priceDifference := Some (Finite (Dec 1250 (- 2))),
         priceDifferencePercent := Some (Finite (Dec 625 (- 3))),
         dex1 := Some ''uniswap'',
         dex2 := Some ''sushiswap'',
         tradeAmount := Some (Finite (Decimal 1000)),
         grossProfitUSD := Some (Finite (Dec 1250 (- 2))),
         gasCostUSD := Some (Finite (Dec 6000 (- 2))),
         swapFeesUSD := Some (Finite (Dec 900 (- 2))),
         netProfitUSD := Some (Finite (Dec (- 5650) (- 2))),
         profitWithSafetyMargin := Some (Finite (Dec (- 5650) (- 2))),
         buyPairAddress := Some ''0x0000000000000000000000000000000000000000'',
         sellPairAddress := Some ''0x0000000000000000000000000000000000000000'',
         blockNumber := Some ''latest'',
         timestamp := Some now\<rparr>]"

text \<open>
  \<^verbatim>\<open>scanTriangularArbitrage\<close>.  \<open>store_found\<close> is the loop over the opportunities detected
  for one triangular pair and \<open>scan_pairs\<close> the loop over the pairs; their state is the bot
  and the counter \<^verbatim>\<open>realOpportunitiesFound\<close>.  \<open>Inl\<close> is an exception, which ends the scan in
  the \<^verbatim>\<open>catch\<close> of the function with the bot as it is then: \<^verbatim>\<open>plus\<close> throws on a net profit
  that is not set.  \<open>store_test\<close> is the body of the loop over the test opportunities, where
  \<^verbatim>\<open>parseFloat\<close> turns a net profit that is not set into \<^verbatim>\<open>NaN\<close>.
\<close>

fun store_found ::
  "int \<Rightarrow> opportunity list \<Rightarrow> ComprehensiveArbitrageBot \<times> nat
     \<Rightarrow> ComprehensiveArbitrageBot + ComprehensiveArbitrageBot \<times> nat" where
  "store_found now [] s = Inr s"
| "store_found now (opp # opps) s =
     (let self = fst s;
          counted = (stats self)\<lparr>opportunitiesFound := opportunitiesFound (stats self) + 1,
                      triangularOpportunities := triangularOpportunities (stats self) + 1\<rparr>
      in case netProfitUSD opp of
           None \<Rightarrow> Inl (self\<lparr>stats := counted\<rparr>)
         | Some profit \<Rightarrow>
             store_found now opps
               (self\<lparr>stats := counted\<lparr>totalProfit := n_plus (totalProfit counted) profit\<rparr>,
                    databaseService :=
                      storeOpportunity (databaseService self)
                        (opp\<lparr>type := Some ''triangular'', timestamp := Some now\<rparr>)\<rparr>,
                snd s + 1))"

fun scan_pairs ::
  "(string \<Rightarrow> string \<Rightarrow> string \<Rightarrow> dec option) \<Rightarrow> int option \<Rightarrow> int \<Rightarrow> triangularPair list
     \<Rightarrow> ComprehensiveArbitrageBot \<times> nat
     \<Rightarrow> ComprehensiveArbitrageBot + ComprehensiveArbitrageBot \<times> nat" where
  "scan_pairs getPrice gasPrice now [] s = Inr s"
| "scan_pairs getPrice gasPrice now (triangularPair # rest) s =
     (case store_found now
             (detectTriangularArbitrage (config (fst s)) getPrice now triangularPair gasPrice) s of
        Inl thrown \<Rightarrow> Inl thrown
      | Inr s1 \<Rightarrow> scan_pairs getPrice gasPrice now rest s1)"

definition store_test :: "int \<Rightarrow> ComprehensiveArbitrageBot \<Rightarrow> opportunity \<Rightarrow> ComprehensiveArbitrageBot"
  where
  "store_test now self opp =
     self\<lparr>stats :=
           (stats self)\<lparr>opportunitiesFound := opportunitiesFound (stats self) + 1,
                       triangularOpportunities := triangularOpportunities (stats self) + 1,
                       totalProfit :=
                         n_plus (totalProfit (stats self))
                           (case netProfitUSD opp of None \<Rightarrow> NaN | Some profit \<Rightarrow> profit)\<rparr>,
         databaseService :=
           storeOpportunity (databaseService self) (opp\<lparr>timestamp := Some now\<rparr>)\<rparr>"

definition scanTriangularArbitrage ::
  "ComprehensiveArbitrageBot \<Rightarrow> (string \<Rightarrow> string \<Rightarrow> string \<Rightarrow> dec option) \<Rightarrow> int option \<Rightarrow> int
     \<Rightarrow> ComprehensiveArbitrageBot" where
  "scanTriangularArbitrage self getPrice gasPrice now =
     (case scan_pairs getPrice gasPrice now (triangularPairs (config self)) (self, 0) of
        Inl thrown \<Rightarrow> thrown
      | Inr s \<Rightarrow>
          (let scanned = fst s; realOpportunitiesFound = snd s
           in if (\<not> enableRealPriceFetching (config scanned) \<or> realOpportunitiesFound = 0)
                 \<and> testMode (config scanned) \<and> scansCompleted (stats scanned) mod 15 = 0
              then foldl (store_test now) scanned
                     (filter (\<lambda>opp. type opp = Some ''triangular'')
                        (generateTestOpportunities now))
              else scanned))"

section \<open>Facts about the decimal arithmetic\<close>

lemmas dec_eval =
  ndigits_def finalise_def precision_def Decimal_def scaled_def d_mul_def d_add_def d_sub_def
  d_div_def d_lt_def d_lte_def d_gt_def d_gte_def d_floor_def d_ceil_def toInt_def ilog10_def
  ilog10_from.simps FEE_NUMERATOR_def FEE_DENOMINATOR_def Let_def

lemma ilog10_from_bounds:
  "p = 10 ^ Suc k \<Longrightarrow> k = 0 \<or> 10 ^ k \<le> n \<Longrightarrow>
     n < 10 ^ Suc (ilog10_from k p n) \<and> (ilog10_from k p n = 0 \<or> 10 ^ ilog10_from k p n \<le> n)"
proof (induction k p n rule: ilog10_from.induct)
  case (1 k p n)
  show ?case
  proof (cases "n < p \<or> p = 0")
    case True
    with "1.prems" show ?thesis by (simp add: ilog10_from.simps)
  next
    case False
    then have "10 ^ Suc k \<le> n" using "1.prems" by simp
    then have "n < 10 ^ Suc (ilog10_from (k + 1) (p * 10) n) \<and>
      (ilog10_from (k + 1) (p * 10) n = 0 \<or> 10 ^ ilog10_from (k + 1) (p * 10) n \<le> n)"
      using "1.IH" [OF False] "1.prems" by simp
    then show ?thesis using False by (simp add: ilog10_from.simps [of k p n])
  qed
qed

lemma ilog10_lower: "0 < n \<Longrightarrow> 10 ^ ilog10 n \<le> n"
  using ilog10_from_bounds [of 10 0 n] by (auto simp add: ilog10_def)

lemma ilog10_upper: "n < 10 ^ Suc (ilog10 n)"
  using ilog10_from_bounds [of 10 0 n] by (simp add: ilog10_def)

lemma ilog10_less: "0 < n \<Longrightarrow> n < 10 ^ k \<Longrightarrow> ilog10 n < k"
proof -
  assume a: "0 < n" "n < 10 ^ k"
  have "(10::nat) ^ ilog10 n \<le> n" using a ilog10_lower by blast
  also have "n < 10 ^ k" by fact
  finally show ?thesis by simp
qed

lemma ndigits_le: "c \<noteq> 0 \<Longrightarrow> \<bar>c\<bar> < 10 ^ sd \<Longrightarrow> ndigits c \<le> sd"
proof -
  assume nz: "c \<noteq> 0" and a: "\<bar>c\<bar> < 10 ^ sd"
  from nz have p: "0 < nat \<bar>c\<bar>" by simp
  from a have "nat \<bar>c\<bar> < 10 ^ sd" by (simp add: nat_less_iff)
  with p have "ilog10 (nat \<bar>c\<bar>) < sd" by (rule ilog10_less)
  then show ?thesis by (simp add: ndigits_def)
qed

lemma finalise_exact: "\<bar>c\<bar> < 10 ^ sd \<Longrightarrow> finalise sd (Dec c e) = Dec c e"
  using ndigits_le [of c sd] by (cases "c = 0") (simp_all add: finalise_def Let_def)

lemma int_div_less_iff: "0 < (b::int) \<Longrightarrow> a div b < c \<longleftrightarrow> a < c * b"
proof -
  assume b: "0 < b"
  have "a div b = \<lfloor>(of_int a :: rat) / of_int b\<rfloor>" by (simp add: floor_divide_of_int_eq)
  moreover have "\<lfloor>(of_int a :: rat) / of_int b\<rfloor> < c \<longleftrightarrow> (of_int a :: rat) / of_int b < of_int c"
    by (rule floor_less_iff)
  moreover have "(of_int a :: rat) / of_int b < of_int c \<longleftrightarrow> (of_int a :: rat) < of_int c * of_int b"
    using b by (simp add: pos_divide_less_eq)
  moreover have "(of_int a :: rat) < of_int c * of_int b \<longleftrightarrow> a < c * b"
    by (metis of_int_less_iff of_int_mult)
  ultimately show ?thesis by simp
qed

lemma int_le_div_iff: "0 < (b::int) \<Longrightarrow> c \<le> a div b \<longleftrightarrow> c * b \<le> a"
  using int_div_less_iff [of b a c] by linarith

lemma d_div_int_shape:
  assumes n: "0 < n" "n < 10 ^ 19" and d: "0 < d"
  shows "\<exists>k. 0 < k \<and> d < 10 ^ k \<and>
           d_div (Dec n 0) (Dec d 0) = Dec ((2 * n * 10 ^ k + d) div (2 * d)) (- int k)"
proof -
  define e where "e = (if d \<le> n then int (ilog10 (nat (n div d)))
                       else - int (Suc (ilog10 (nat ((d - 1) div n)))))"
  define k where "k = nat (19 - e)"
  have e18: "e \<le> 18"
  proof (cases "d \<le> n")
    case True
    then have "1 \<le> n div d" using d by (simp add: int_le_div_iff)
    then have p: "0 < nat (n div d)" by simp
    have "n div d \<le> n" using n d by (simp add: int_div_le_self)
    with n have "n div d < 10 ^ 19" by linarith
    then have "nat (n div d) < 10 ^ 19"
      using \<open>1 \<le> n div d\<close> by (simp add: nat_less_iff)
    with p have "ilog10 (nat (n div d)) < 19" by (rule ilog10_less)
    with True show ?thesis by (simp add: e_def)
  next
    case False
    then show ?thesis by (simp add: e_def)
  qed
  then have k: "int k = 19 - e" "0 < k" by (simp_all add: k_def)
  have dk: "d < 10 ^ k"
  proof (cases "d \<le> n")
    case True
    define j where "j = ilog10 (nat (n div d))"
    have ej: "e = int j" using True by (simp add: e_def j_def)
    have "1 \<le> n div d" using True d by (simp add: int_le_div_iff)
    then have "0 < nat (n div d)" by simp
    then have "10 ^ j \<le> nat (n div d)" unfolding j_def by (rule ilog10_lower)
    then have "(10::int) ^ j \<le> n div d"
      using \<open>1 \<le> n div d\<close> by (simp add: le_nat_iff)
    then have "10 ^ j * d \<le> n" using d by (simp add: int_le_div_iff)
    with n have lt: "10 ^ j * d < (10::int) ^ 19" by linarith
    have kj: "k + j = 19" using k ej by linarith
    have "(10::int) ^ (j + k) = 10 ^ j * 10 ^ k" by (rule power_add)
    then have "(10::int) ^ 19 = 10 ^ j * 10 ^ k" using kj by (simp add: add.commute)
    with lt have "10 ^ j * d < (10::int) ^ j * 10 ^ k" by simp
    then show ?thesis by simp
  next
    case False
    define j where "j = Suc (ilog10 (nat ((d - 1) div n)))"
    have ej: "e = - int j" using False by (simp add: e_def j_def)
    have nn: "0 \<le> (d - 1) div n" using n d by (simp add: pos_imp_zdiv_nonneg_iff)
    have "nat ((d - 1) div n) < 10 ^ j" unfolding j_def by (rule ilog10_upper)
    then have "(d - 1) div n < 10 ^ j"
      using nn by (simp add: nat_less_iff)
    then have "d - 1 < 10 ^ j * n" using n by (simp add: int_div_less_iff)
    then have "d \<le> 10 ^ j * n" by simp
    also have "10 ^ j * n < 10 ^ j * (10::int) ^ 19" using n by simp
    also have "\<dots> = 10 ^ k"
    proof -
      have "k = j + 19" using k ej by linarith
      then show ?thesis by (simp add: power_add)
    qed
    finally show ?thesis .
  qed
  have t: "e - int precision + 1 = - int k" using k by (simp add: precision_def)
  have ab: "\<bar>n\<bar> = n" "\<bar>d\<bar> = d" "sgn n = 1" "sgn d = 1" "n \<noteq> 0" "d \<noteq> 0"
    using n d by simp_all
  have "d_div (Dec n 0) (Dec d 0) = Dec ((2 * n * 10 ^ k + d) div (2 * d)) (- int k)"
    unfolding d_div_def Let_def dec.sel ab e_def [symmetric] t
    using k n d by (simp add: k_def)
  with k dk show ?thesis by blast
qed


lemma d_floor_d_div_int:
  assumes n: "0 < n" "n < 10 ^ 19" and d: "0 < d"
  shows "d_floor (d_div (Dec n 0) (Dec d 0)) = Dec (n div d) 0"
proof -
  from d_div_int_shape [OF n d] obtain k where k: "0 < k" "d < 10 ^ k"
    and dv: "d_div (Dec n 0) (Dec d 0) = Dec ((2 * n * 10 ^ k + d) div (2 * d)) (- int k)" by blast
  define P :: int where "P = 10 ^ k"
  define Q where "Q = n div d"
  have P: "0 < P" "d < P" using k by (simp_all add: P_def)
  have q1: "Q * d \<le> n" using d by (simp add: Q_def int_le_div_iff [symmetric])
  have q2: "n < (Q + 1) * d" using d by (simp add: Q_def int_div_less_iff [symmetric])
  have "(Q * d) * (2 * P) \<le> n * (2 * P)" using q1 P by (intro mult_right_mono) simp_all
  then have lo: "Q * P * (2 * d) \<le> 2 * n * P + d" using d by (simp add: algebra_simps)
  have "(n + 1) * (2 * P) \<le> ((Q + 1) * d) * (2 * P)" using q2 P by (intro mult_right_mono) simp_all
  then have hi: "2 * n * P + d < (Q + 1) * P * (2 * d)" using P by (simp add: algebra_simps)
  have "Q * P \<le> (2 * n * P + d) div (2 * d)" using lo d by (simp add: int_le_div_iff)
  moreover have "(2 * n * P + d) div (2 * d) < (Q + 1) * P" using hi d by (simp add: int_div_less_iff)
  ultimately have "(2 * n * P + d) div (2 * d) div P = Q"
    using P int_le_div_iff [of P Q "(2 * n * P + d) div (2 * d)"]
      int_div_less_iff [of P "(2 * n * P + d) div (2 * d)" "Q + 1"] by simp
  then show ?thesis using k by (simp add: dv d_floor_def P_def Q_def)
qed

lemma d_ceil_d_div_int:
  assumes n: "0 < n" "n < 10 ^ 19" and d: "0 < d"
  shows "d_ceil (d_div (Dec n 0) (Dec d 0)) = Dec (- ((- n) div d)) 0"
proof -
  from d_div_int_shape [OF n d] obtain k where k: "0 < k" "d < 10 ^ k"
    and dv: "d_div (Dec n 0) (Dec d 0) = Dec ((2 * n * 10 ^ k + d) div (2 * d)) (- int k)" by blast
  define P :: int where "P = 10 ^ k"
  define R where "R = (- n) div d"
  define M where "M = (2 * n * P + d) div (2 * d)"
  have P: "0 < P" "d < P" using k by (simp_all add: P_def)
  have r1: "R * d \<le> - n" using d by (simp add: R_def int_le_div_iff [symmetric])
  have r2: "- n < (R + 1) * d" using d by (simp add: R_def int_div_less_iff [symmetric])
  have "(R * d) * (2 * P) \<le> (- n) * (2 * P)" using r1 P by (intro mult_right_mono) simp_all
  then have a: "2 * n * P + d < (- R * P + 1) * (2 * d)" using d by (simp add: algebra_simps)
  have "(- n + 1) * (2 * P) \<le> ((R + 1) * d) * (2 * P)" using r2 P by (intro mult_right_mono) simp_all
  then have b: "(- (R + 1) * P + 1) * (2 * d) \<le> 2 * n * P + d" using P by (simp add: algebra_simps)
  have "M < - R * P + 1" unfolding M_def using a d by (simp add: int_div_less_iff)
  moreover have "- (R + 1) * P + 1 \<le> M" unfolding M_def using b d by (simp add: int_le_div_iff)
  ultimately have "R * P \<le> - M" "- M < (R + 1) * P" by (simp_all add: algebra_simps)
  then have "(- M) div P = R"
    using P int_le_div_iff [of P R "- M"] int_div_less_iff [of P "- M" "R + 1"] by simp
  then show ?thesis using k by (simp add: dv d_ceil_def P_def R_def M_def)
qed

lemma d_lte_Decimal [simp]: "d_lte (Decimal a) (Decimal b) \<longleftrightarrow> a \<le> b"
  by (simp add: d_lte_def Decimal_def scaled_def)

lemma d_lt_Decimal [simp]: "d_lt (Decimal a) (Decimal b) \<longleftrightarrow> a < b"
  by (simp add: d_lt_def Decimal_def scaled_def)

lemma d_gte_Decimal [simp]: "d_gte (Decimal a) (Decimal b) \<longleftrightarrow> b \<le> a"
  by (simp add: d_gte_def)

lemma d_gt_Decimal [simp]: "d_gt (Decimal a) (Decimal b) \<longleftrightarrow> b < a"
  by (simp add: d_gt_def)

lemma d_mul_Decimal: "\<bar>a * b\<bar> < 10 ^ 20 \<Longrightarrow> d_mul (Decimal a) (Decimal b) = Decimal (a * b)"
  by (simp add: d_mul_def Decimal_def precision_def finalise_exact)

lemma d_add_Decimal: "\<bar>a + b\<bar> < 10 ^ 20 \<Longrightarrow> d_add (Decimal a) (Decimal b) = Decimal (a + b)"
  by (simp add: d_add_def Decimal_def precision_def scaled_def finalise_exact)

lemma d_sub_Decimal: "\<bar>a - b\<bar> < 10 ^ 20 \<Longrightarrow> d_sub (Decimal a) (Decimal b) = Decimal (a - b)"
  by (simp add: d_sub_def Decimal_def precision_def scaled_def finalise_exact)

lemma toInt_Decimal [simp]: "toInt (Decimal a) = a"
  by (simp add: toInt_def d_floor_def Decimal_def)

lemma getAmountIn_in_range:
  assumes "0 < aOut" "aOut < rOut" "0 < rIn"
    and "rIn * aOut * 1000 < 10 ^ 19" and "rOut * 997 < 10 ^ 20"
  shows "getAmountIn aOut rIn rOut =
           Inr (\<lceil>(of_int (rIn * aOut * 1000) :: rat) / of_int ((rOut - aOut) * 997)\<rceil> + 1)"
proof -
  define n where "n = rIn * aOut * 1000"
  define d where "d = (rOut - aOut) * 997"
  have n: "0 < n" "n < 10 ^ 19" using assms by (simp_all add: n_def)
  have d: "0 < d" using assms by (simp add: d_def)
  have m1: "d_mul (Decimal rIn) (Decimal aOut) = Decimal (rIn * aOut)"
  proof (rule d_mul_Decimal)
    define x where "x = rIn * aOut"
    have "0 < x" using assms by (simp add: x_def)
    moreover have "x * 1000 < 10 ^ 19" using assms(4) by (simp add: x_def)
    ultimately show "\<bar>rIn * aOut\<bar> < 10 ^ 20" unfolding x_def [symmetric] by simp
  qed
  have m2: "d_mul (Decimal (rIn * aOut)) (Decimal 1000) = Decimal n"
    unfolding n_def using n by (intro d_mul_Decimal) (simp add: n_def)
  have s1: "d_sub (Decimal rOut) (Decimal aOut) = Decimal (rOut - aOut)"
    using assms by (intro d_sub_Decimal) simp
  have m3: "d_mul (Decimal (rOut - aOut)) (Decimal 997) = Decimal d"
    unfolding d_def using assms by (intro d_mul_Decimal) simp
  have c: "d_ceil (d_div (Decimal n) (Decimal d)) = Decimal (- ((- n) div d))"
    using d_ceil_d_div_int [OF n d] by (simp add: Decimal_def)
  have cb: "0 < - ((- n) div d)" "- ((- n) div d) \<le> n"
  proof -
    have "(- n) div d < 0" using n d by (simp add: int_div_less_iff)
    then show "0 < - ((- n) div d)" by simp
    have "- n \<le> (- n) div d" using n d by (simp add: int_le_div_iff)
    then show "- ((- n) div d) \<le> n" by simp
  qed
  have a1: "d_add (Decimal (- ((- n) div d))) (Decimal 1) = Decimal (- ((- n) div d) + 1)"
    using cb n by (intro d_add_Decimal) simp
  have "getAmountIn aOut rIn rOut = Inr (- ((- n) div d) + 1)"
    using assms
    by (simp add: getAmountIn_def Let_def FEE_DENOMINATOR_def FEE_NUMERATOR_def m1 m2 s1 m3 c a1
        n_def [symmetric] d_def [symmetric])
  then have "getAmountIn aOut rIn rOut = Inr (\<lceil>(of_int n :: rat) / of_int d\<rceil> + 1)"
    by (simp only: ceiling_divide_eq_div)
  then show ?thesis unfolding n_def d_def .
qed

lemma getAmountOut_in_range:
  assumes "0 < aIn" "0 < rIn" "0 < rOut"
    and "aIn * 997 * rOut < 10 ^ 19" and "rIn * 1000 + aIn * 997 < 10 ^ 20"
  shows "getAmountOut aIn rIn rOut = Inr ((aIn * 997 * rOut) div (rIn * 1000 + aIn * 997))"
proof -
  define n where "n = aIn * 997 * rOut"
  define d where "d = rIn * 1000 + aIn * 997"
  have n: "0 < n" "n < 10 ^ 19" using assms by (simp_all add: n_def)
  have d: "0 < d" "d < 10 ^ 20" using assms by (simp_all add: d_def)
  have f: "0 < aIn * 997" "aIn * 997 < 10 ^ 20" using assms d by (simp_all add: d_def)
  have r: "0 < rIn * 1000" "rIn * 1000 < 10 ^ 20" using assms d by (simp_all add: d_def)
  have m1: "d_mul (Decimal aIn) (Decimal 997) = Decimal (aIn * 997)"
    using f by (intro d_mul_Decimal) simp
  have m2: "d_mul (Decimal (aIn * 997)) (Decimal rOut) = Decimal n"
    unfolding n_def using n by (intro d_mul_Decimal) (simp add: n_def)
  have m3: "d_mul (Decimal rIn) (Decimal 1000) = Decimal (rIn * 1000)"
    using r by (intro d_mul_Decimal) simp
  have a1: "d_add (Decimal (rIn * 1000)) (Decimal (aIn * 997)) = Decimal d"
    unfolding d_def using d by (intro d_add_Decimal) (simp add: d_def)
  have c: "d_floor (d_div (Decimal n) (Decimal d)) = Decimal (n div d)"
    using d_floor_d_div_int [OF n d(1)] by (simp add: Decimal_def)
  have "getAmountOut aIn rIn rOut = Inr (n div d)"
    using assms
    by (simp add: getAmountOut_def Let_def FEE_DENOMINATOR_def FEE_NUMERATOR_def m1 m2 m3 a1 c)
  then show ?thesis unfolding n_def d_def .
qed

lemma getAmountOut_errors:
  "aIn \<le> 0 \<Longrightarrow> getAmountOut aIn rIn rOut = Inl InvalidAmountIn"
  "0 < aIn \<Longrightarrow> rIn \<le> 0 \<Longrightarrow> getAmountOut aIn rIn rOut = Inl InvalidReserveIn"
  "0 < aIn \<Longrightarrow> 0 < rIn \<Longrightarrow> rOut \<le> 0 \<Longrightarrow> getAmountOut aIn rIn rOut = Inl InvalidReserveOut"
  by (simp_all add: getAmountOut_def Let_def)

lemma getAmountIn_errors:
  "aOut \<le> 0 \<or> rIn \<le> 0 \<or> rOut \<le> 0 \<Longrightarrow> getAmountIn aOut rIn rOut = Inl InvalidInput"
  "0 < aOut \<Longrightarrow> 0 < rIn \<Longrightarrow> 0 < rOut \<Longrightarrow> rOut \<le> aOut \<Longrightarrow>
     getAmountIn aOut rIn rOut = Inl InsufficientLiquidity"
  by (auto simp add: getAmountIn_def Let_def)


lemma val_Decimal [simp]: "val (Decimal n) = of_int n"
  by (simp add: val_def Decimal_def)

lemma val_scaled: "e \<le> expo x \<Longrightarrow> val x = of_int (scaled x e) * 10 powi e"
proof -
  assume le: "e \<le> expo x"
  have "(10::rat) powi expo x = 10 powi ((expo x - e) + e)" by simp
  also have "\<dots> = 10 powi (expo x - e) * 10 powi e"
    by (rule power_int_add) simp
  also have "10 powi (expo x - e) = (10::rat) ^ nat (expo x - e)"
    using le by (simp add: power_int_def)
  finally have "(10::rat) powi expo x = 10 ^ nat (expo x - e) * 10 powi e" .
  then show ?thesis by (simp add: val_def scaled_def)
qed

lemma d_lt_val: "d_lt x y \<longleftrightarrow> val x < val y"
proof -
  define e where "e = min (expo x) (expo y)"
  have x: "val x = of_int (scaled x e) * 10 powi e" by (rule val_scaled) (simp add: e_def)
  have y: "val y = of_int (scaled y e) * 10 powi e" by (rule val_scaled) (simp add: e_def)
  have p: "(0::rat) < 10 powi e" by simp
  show ?thesis unfolding x y d_lt_def Let_def e_def [symmetric]
    using p by (simp add: mult_less_cancel_right_pos)
qed

lemma d_lte_val: "d_lte x y \<longleftrightarrow> val x \<le> val y"
proof -
  define e where "e = min (expo x) (expo y)"
  have x: "val x = of_int (scaled x e) * 10 powi e" by (rule val_scaled) (simp add: e_def)
  have y: "val y = of_int (scaled y e) * 10 powi e" by (rule val_scaled) (simp add: e_def)
  have p: "(0::rat) < 10 powi e" by simp
  show ?thesis unfolding x y d_lte_def Let_def e_def [symmetric]
    using p by (simp add: mult_le_cancel_right_pos)
qed

lemma d_gt_val: "d_gt x y \<longleftrightarrow> val y < val x"
  by (simp add: d_gt_def d_lt_val)

lemma d_gte_val: "d_gte x y \<longleftrightarrow> val y \<le> val x"
  by (simp add: d_gte_def d_lte_val)

lemma d_div_exponent:
  assumes n: "0 < n" and d: "0 < d"
  defines "e \<equiv> (if d \<le> n then int (ilog10 (nat (n div d)))
                 else - int (Suc (ilog10 (nat ((d - 1) div n)))))"
  shows "(10::rat) powi e \<le> of_int n / of_int d"
proof (cases "d \<le> n")
  case True
  define j where "j = ilog10 (nat (n div d))"
  have ej: "e = int j" using True by (simp add: e_def j_def)
  have "1 \<le> n div d" using True d by (simp add: int_le_div_iff)
  then have "0 < nat (n div d)" by simp
  then have "10 ^ j \<le> nat (n div d)" unfolding j_def by (rule ilog10_lower)
  then have "(10::int) ^ j \<le> n div d"
    using \<open>1 \<le> n div d\<close> by (simp add: le_nat_iff)
  then have "10 ^ j * d \<le> n" using d by (simp add: int_le_div_iff)
  then have "(of_int (10 ^ j * d) :: rat) \<le> of_int n" by (simp only: of_int_le_iff)
  then have "(10::rat) ^ j * of_int d \<le> of_int n" by simp
  then have "(10::rat) ^ j \<le> of_int n / of_int d"
    using d by (simp add: pos_le_divide_eq)
  then show ?thesis by (simp add: ej)
next
  case False
  define j where "j = Suc (ilog10 (nat ((d - 1) div n)))"
  have ej: "e = - int j" using False by (simp add: e_def j_def)
  have nn: "0 \<le> (d - 1) div n" using n d by (simp add: pos_imp_zdiv_nonneg_iff)
  have "nat ((d - 1) div n) < 10 ^ j" unfolding j_def by (rule ilog10_upper)
  then have "(d - 1) div n < 10 ^ j"
    using nn by (simp add: nat_less_iff)
  then have "d - 1 < 10 ^ j * n" using n by (simp add: int_div_less_iff)
  then have "d \<le> 10 ^ j * n" by simp
  then have "(of_int d :: rat) \<le> of_int (10 ^ j * n)" by (simp only: of_int_le_iff)
  then have "(of_int d :: rat) \<le> 10 ^ j * of_int n" by simp
  then have "(of_int d :: rat) / 10 ^ j \<le> of_int n"
    by (simp add: pos_divide_le_eq mult.commute)
  then have "1 / (10::rat) ^ j \<le> of_int n / of_int d"
    using d by (simp add: pos_le_divide_eq pos_divide_le_eq mult.commute)
  then show ?thesis by (simp add: ej power_int_minus inverse_eq_divide)
qed

lemma round_half_up:
  assumes b: "0 < (b::int)"
  shows "\<bar>of_int ((2 * a + b) div (2 * b)) - (of_int a / of_int b :: rat)\<bar> \<le> 1 / 2"
proof -
  define m where "m = (2 * a + b) div (2 * b)"
  define r where "r = (2 * a + b) mod (2 * b)"
  have eq: "2 * a + b = 2 * b * m + r" by (simp add: m_def r_def)
  have r: "0 \<le> r" "r < 2 * b" using b by (simp_all add: r_def)
  have i1: "(2 * m - 1) * b \<le> 2 * a" using eq r by (simp add: algebra_simps)
  have i2: "2 * a \<le> (2 * m + 1) * b" using eq r by (simp add: algebra_simps)
  have "(of_int ((2 * m - 1) * b) :: rat) \<le> of_int (2 * a)" using i1 by (simp only: of_int_le_iff)
  then have "(2 * of_int m - 1) * (of_int b :: rat) \<le> 2 * of_int a" by simp
  then have "2 * of_int m - 1 \<le> 2 * (of_int a :: rat) / of_int b"
    using b by (simp add: pos_le_divide_eq)
  then have lo: "of_int m - (of_int a / of_int b :: rat) \<le> 1 / 2" by simp
  have "(of_int (2 * a) :: rat) \<le> of_int ((2 * m + 1) * b)" using i2 by (simp only: of_int_le_iff)
  then have "2 * (of_int a :: rat) \<le> (2 * of_int m + 1) * of_int b" by simp
  then have "2 * (of_int a :: rat) / of_int b \<le> 2 * of_int m + 1"
    using b by (simp add: pos_divide_le_eq)
  then have hi: "- (1 / 2) \<le> of_int m - (of_int a / of_int b :: rat)" by simp
  from lo hi have "\<bar>of_int m - (of_int a / of_int b :: rat)\<bar> \<le> 1 / 2" by linarith
  then show ?thesis by (simp only: m_def)
qed

lemma d_div_error:
  assumes y: "coef y \<noteq> 0"
  shows "\<bar>val (d_div x y) - val x / val y\<bar> \<le> \<bar>val x / val y\<bar> * (5 / 10 ^ 20)"
proof (cases "coef x = 0")
  case True
  then show ?thesis by (simp add: d_div_def val_def)
next
  case False
  define n where "n = \<bar>coef x\<bar>"
  define d where "d = \<bar>coef y\<bar>"
  define s where "s = sgn (coef x) * sgn (coef y)"
  define e where "e = (if d \<le> n then int (ilog10 (nat (n div d)))
                       else - int (Suc (ilog10 (nat ((d - 1) div n)))))"
  define t where "t = e - int precision + 1"
  define m where "m = (if 0 \<le> t then (2 * n + d * 10 ^ nat t) div (2 * d * 10 ^ nat t)
                       else (2 * n * 10 ^ nat (- t) + d) div (2 * d))"
  define q :: rat where "q = of_int n / of_int d"
  define P :: rat where "P = 10 powi (expo x - expo y)"
  define T :: rat where "T = 10 powi t"
  have n: "0 < n" and d: "0 < d" using False y by (simp_all add: n_def d_def)
  have P: "0 < P" and T: "0 < T" by (simp_all add: P_def T_def)
  have q: "0 < q" using n d by (simp add: q_def)
  have res: "d_div x y = Dec (s * m) (t + expo x - expo y)"
    using n d unfolding d_div_def Let_def n_def [symmetric] d_def [symmetric] s_def [symmetric]
      e_def [symmetric] t_def [symmetric] m_def [symmetric]
    by simp
  have "(10::rat) powi (t + (expo x - expo y)) = 10 powi t * 10 powi (expo x - expo y)"
    by (rule power_int_add) simp
  then have vd: "val (d_div x y) = of_int s * of_int m * T * P"
    by (simp add: res val_def T_def P_def add_diff_eq)
  have sx: "of_int (coef x) = (of_int (sgn (coef x)) :: rat) * of_int n"
    unfolding n_def by (simp only: of_int_mult [symmetric] sgn_mult_abs)
  have sy: "of_int (coef y) = (of_int (sgn (coef y)) :: rat) * of_int d"
    unfolding d_def by (simp only: of_int_mult [symmetric] sgn_mult_abs)
  have sgy: "(of_int (sgn (coef y)) :: rat) * of_int (sgn (coef y)) = 1"
    using y by (cases "0 < coef y") simp_all
  have "(10::rat) powi expo x = 10 powi (expo x - expo y) * 10 powi expo y"
  proof -
    have "(10::rat) powi ((expo x - expo y) + expo y) = 10 powi (expo x - expo y) * 10 powi expo y"
      by (rule power_int_add) simp
    then show ?thesis by simp
  qed
  then have pw: "(10::rat) powi expo x / 10 powi expo y = P" by (simp add: P_def)
  have "val x / val y =
      (of_int (coef x) / of_int (coef y)) * ((10::rat) powi expo x / 10 powi expo y)"
    by (simp add: val_def)
  also have "of_int (coef x) / of_int (coef y) = (of_int s :: rat) * q"
  proof -
    have "(of_int (coef x) :: rat) / of_int (coef y) =
        (of_int (sgn (coef x)) * of_int n) / (of_int (sgn (coef y)) * of_int d)"
      by (simp only: sx [symmetric] sy [symmetric])
    also have "\<dots> = (of_int (sgn (coef x)) * of_int n) * (of_int (sgn (coef y)) * of_int (sgn (coef y)))
        / (of_int (sgn (coef y)) * of_int d)"
      by (simp only: sgy mult_1_right)
    also have "\<dots> = of_int (sgn (coef x)) * of_int (sgn (coef y)) * (of_int n / of_int d)"
      using y d by simp
    finally show ?thesis by (simp add: s_def q_def)
  qed
  finally have vq: "val x / val y = of_int s * q * P" by (simp add: pw)
  have "\<bar>s\<bar> = 1" using False y by (simp add: s_def abs_mult abs_sgn_eq)
  then have "(of_int \<bar>s\<bar> :: rat) = 1" by simp
  then have s1: "\<bar>of_int s :: rat\<bar> = 1" by (simp only: of_int_abs)
  have A: "T * 10 ^ 19 \<le> q"
  proof -
    have "(10::rat) powi e \<le> of_int n / of_int d"
      unfolding e_def using n d by (rule d_div_exponent)
    moreover have "e = t + 19" by (simp add: t_def precision_def)
    moreover have "(10::rat) powi (t + 19) = 10 powi t * 10 powi 19"
      by (rule power_int_add) simp
    ultimately show ?thesis by (simp add: T_def q_def)
  qed
  have B: "\<bar>of_int m * T - q\<bar> \<le> T / 2"
  proof (cases "0 \<le> t")
    case True
    define U :: int where "U = 10 ^ nat t"
    have U: "0 < U" by (simp add: U_def)
    have TU: "T = of_int U" using True by (simp add: T_def U_def power_int_def)
    have m': "m = (2 * n + d * U) div (2 * (d * U))" using True by (simp add: m_def U_def mult.assoc)
    have "0 < d * U" using d U by simp
    then have "\<bar>of_int ((2 * n + d * U) div (2 * (d * U))) - (of_int n / of_int (d * U) :: rat)\<bar> \<le> 1 / 2"
      by (rule round_half_up)
    then have "\<bar>of_int m - q / T\<bar> \<le> 1 / 2"
      by (simp add: m' q_def TU)
    then have "\<bar>of_int m - q / T\<bar> * T \<le> 1 / 2 * T"
      using T by (simp only: mult_le_cancel_right_pos)
    moreover have "\<bar>of_int m - q / T\<bar> * T = \<bar>of_int m * T - q\<bar>"
    proof -
      have "\<bar>of_int m - q / T\<bar> * T = \<bar>(of_int m - q / T) * T\<bar>"
        using T by (simp add: abs_mult)
      also have "(of_int m - q / T) * T = of_int m * T - q"
        using T by (simp add: left_diff_distrib)
      finally show ?thesis .
    qed
    ultimately show ?thesis by simp
  next
    case False
    define U :: int where "U = 10 ^ nat (- t)"
    have U: "0 < U" by (simp add: U_def)
    have TU: "T = 1 / of_int U"
      using False by (simp add: T_def U_def power_int_def inverse_eq_divide power_divide)
    have m': "m = (2 * (n * U) + d) div (2 * d)" using False by (simp add: m_def U_def mult.assoc)
    from d have "\<bar>of_int ((2 * (n * U) + d) div (2 * d)) - (of_int (n * U) / of_int d :: rat)\<bar> \<le> 1 / 2"
      by (rule round_half_up)
    then have "\<bar>of_int m - q / T\<bar> \<le> 1 / 2"
      by (simp add: m' q_def TU)
    then have "\<bar>of_int m - q / T\<bar> * T \<le> 1 / 2 * T"
      using T by (simp only: mult_le_cancel_right_pos)
    moreover have "\<bar>of_int m - q / T\<bar> * T = \<bar>of_int m * T - q\<bar>"
    proof -
      have "\<bar>of_int m - q / T\<bar> * T = \<bar>(of_int m - q / T) * T\<bar>"
        using T by (simp add: abs_mult)
      also have "(of_int m - q / T) * T = of_int m * T - q"
        using T by (simp add: left_diff_distrib)
      finally show ?thesis .
    qed
    ultimately show ?thesis by simp
  qed
  have "val (d_div x y) - val x / val y = of_int s * P * (of_int m * T - q)"
    by (simp add: vd vq algebra_simps)
  then have "\<bar>val (d_div x y) - val x / val y\<bar> = P * \<bar>of_int m * T - q\<bar>"
    using P s1 by (simp add: abs_mult)
  also have "\<dots> \<le> P * (T / 2)" using B P by (simp only: mult_le_cancel_left_pos)
  also have "\<dots> = (T * 10 ^ 19) * P * (5 / 10 ^ 20)" by simp
  also have "\<dots> \<le> q * P * (5 / 10 ^ 20)"
    using A P by (simp add: mult_right_mono)
  also have "q * P = \<bar>val x / val y\<bar>"
    using P q s1 by (simp add: vq abs_mult)
  finally show ?thesis .
qed

section \<open>Facts about the search loop\<close>

lemma expo_midpoint: "expo (midpoint s) = 0"
  by (simp add: midpoint_def d_floor_def)

lemma netProfitAt_nonpositive:
  "expo m = 0 \<Longrightarrow> d_lte m (Decimal 0) \<Longrightarrow> netProfitAt poolA poolB g m = Inl InvalidAmountIn"
  by (cases m) (simp add: netProfitAt_def getAmountOut_def toInt_def d_floor_def d_lte_def
      scaled_def Decimal_def Let_def)

lemma improves_stop: "\<not> search_continues s \<Longrightarrow> improves poolA poolB g s s"
  by (auto simp add: improves_def elim: probed.cases)

lemma probed_cases:
  "probed poolA poolB g s m \<Longrightarrow>
     m = midpoint s \<or> probed poolA poolB g (search_step poolA poolB g s) m"
  by (erule probed.cases) simp_all

lemma improves_bound:
  "improves poolA poolB g s r \<Longrightarrow> probed poolA poolB g s m \<Longrightarrow>
     netProfitAt poolA poolB g m = Inr p \<Longrightarrow> val p \<le> val (maxProfit r)"
  unfolding improves_def by blast

lemma improves_step_same:
  assumes c: "search_continues s"
    and same: "maxProfit (search_step poolA poolB g s) = maxProfit s"
      "optimalAmount (search_step poolA poolB g s) = optimalAmount s"
    and np: "\<And>p. netProfitAt poolA poolB g (midpoint s) = Inr p \<Longrightarrow> val p \<le> val (maxProfit s)"
    and i: "improves poolA poolB g (search_step poolA poolB g s) r"
  shows "improves poolA poolB g s r"
proof -
  let ?s' = "search_step poolA poolB g s"
  from i same have a: "val (maxProfit s) \<le> val (maxProfit r)"
    unfolding improves_def by simp
  from i same have "optimalAmount r = optimalAmount s \<and> maxProfit r = maxProfit s \<or>
      probed poolA poolB g ?s' (optimalAmount r) \<and>
      netProfitAt poolA poolB g (optimalAmount r) = Inr (maxProfit r) \<and>
      val (maxProfit s) < val (maxProfit r)"
    unfolding improves_def by simp
  then have b: "optimalAmount r = optimalAmount s \<and> maxProfit r = maxProfit s \<or>
      probed poolA poolB g s (optimalAmount r) \<and>
      netProfitAt poolA poolB g (optimalAmount r) = Inr (maxProfit r) \<and>
      val (maxProfit s) < val (maxProfit r)"
    using probed.later [OF c, of poolA poolB g] by blast
  have "val p \<le> val (maxProfit r)"
    if "probed poolA poolB g s m" "netProfitAt poolA poolB g m = Inr p" for m p
  proof -
    from that(1) have "m = midpoint s \<or> probed poolA poolB g ?s' m" by (rule probed_cases)
    then show ?thesis
    proof
      assume "m = midpoint s"
      with that(2) have "val p \<le> val (maxProfit s)" using np by simp
      with a show ?thesis by simp
    next
      assume "probed poolA poolB g ?s' m"
      with i show ?thesis using that(2) by (rule improves_bound)
    qed
  qed
  with a b show ?thesis unfolding improves_def by blast
qed

lemma improves_step_new:
  assumes c: "search_continues s"
    and new: "netProfitAt poolA poolB g (midpoint s) = Inr np"
      "maxProfit (search_step poolA poolB g s) = np"
      "optimalAmount (search_step poolA poolB g s) = midpoint s"
      "val (maxProfit s) < val np"
    and i: "improves poolA poolB g (search_step poolA poolB g s) r"
  shows "improves poolA poolB g s r"
proof -
  let ?s' = "search_step poolA poolB g s"
  from i new have a': "val np \<le> val (maxProfit r)"
    unfolding improves_def by simp
  with new have a: "val (maxProfit s) < val (maxProfit r)" by simp
  from i new have "optimalAmount r = midpoint s \<and> maxProfit r = np \<or>
      probed poolA poolB g ?s' (optimalAmount r) \<and>
      netProfitAt poolA poolB g (optimalAmount r) = Inr (maxProfit r)"
    unfolding improves_def by auto
  then have b: "probed poolA poolB g s (optimalAmount r) \<and>
      netProfitAt poolA poolB g (optimalAmount r) = Inr (maxProfit r)"
    using probed.later [OF c, of poolA poolB g] probed.here [OF c, of poolA poolB g] new(1)
    by auto
  have "val p \<le> val (maxProfit r)"
    if "probed poolA poolB g s m" "netProfitAt poolA poolB g m = Inr p" for m p
  proof -
    from that(1) have "m = midpoint s \<or> probed poolA poolB g ?s' m" by (rule probed_cases)
    then show ?thesis
    proof
      assume "m = midpoint s"
      with that(2) new(1) a' show ?thesis by simp
    next
      assume "probed poolA poolB g ?s' m"
      with i show ?thesis using that(2) by (rule improves_bound)
    qed
  qed
  then have all: "\<forall>m p. probed poolA poolB g s m \<longrightarrow> netProfitAt poolA poolB g m = Inr p
      \<longrightarrow> val p \<le> val (maxProfit r)" by blast
  from a have le: "val (maxProfit s) \<le> val (maxProfit r)" by simp
  show ?thesis unfolding improves_def using le a b all by blast
qed

lemma search_loop_improves:
  "search_loop poolA poolB g s = Some r \<Longrightarrow> 0 \<le> val (maxProfit s) \<longrightarrow> improves poolA poolB g s r"
proof (induction rule: search_loop.raw_induct [rotated 1, consumes 1])
  case (1 loop' poolA poolB g s r)
  note IH0 = 1(1) and body = 1(2)
  show ?case
  proof (cases "search_continues s")
    case False
    with body have "r = s" by simp
    with False show ?thesis by (simp add: improves_stop)
  next
    case c: True
    define mid where "mid = midpoint s"
    define s' where "s' = search_step poolA poolB g s"
    from c body have run: "loop' poolA poolB g s' = Some r" by (simp add: s'_def)
    note IH = IH0 [OF run]
    have step: "s' = (if d_lte mid (Decimal 0) then s\<lparr>low := d_add mid (Decimal 1)\<rparr>
       else case netProfitAt poolA poolB g mid of
           Inl err \<Rightarrow> s\<lparr>low := d_add mid (Decimal 1)\<rparr>
         | Inr netProfit \<Rightarrow>
             (let s1 = (if d_gt netProfit (maxProfit s)
                        then s\<lparr>maxProfit := netProfit, optimalAmount := mid\<rparr> else s)
              in if d_gt netProfit (Decimal 0) then s1\<lparr>low := mid\<rparr> else s1\<lparr>high := mid\<rparr>))"
      unfolding s'_def search_step_def mid_def Let_def ..
    show ?thesis
    proof
      assume nonneg: "0 \<le> val (maxProfit s)"
      have keep: "improves poolA poolB g s r"
        if same: "maxProfit s' = maxProfit s" "optimalAmount s' = optimalAmount s"
          and np: "\<And>p. netProfitAt poolA poolB g mid = Inr p \<Longrightarrow> val p \<le> val (maxProfit s)"
      proof -
        have i: "improves poolA poolB g s' r" using IH nonneg same by simp
        show ?thesis
          by (rule improves_step_same [OF c same [unfolded s'_def] np [unfolded mid_def]
                i [unfolded s'_def]])
      qed
      show "improves poolA poolB g s r"
      proof (cases "d_lte mid (Decimal 0)")
        case True
        then have same: "maxProfit s' = maxProfit s" "optimalAmount s' = optimalAmount s"
          by (simp_all add: step)
        have "netProfitAt poolA poolB g mid = Inl InvalidAmountIn"
          using True expo_midpoint [of s] by (simp add: netProfitAt_nonpositive mid_def)
        then show ?thesis using same by (intro keep) simp_all
      next
        case False
        show ?thesis
        proof (cases "netProfitAt poolA poolB g mid")
          case (Inl err)
          then have same: "maxProfit s' = maxProfit s" "optimalAmount s' = optimalAmount s"
            using False by (simp_all add: step)
          then show ?thesis using Inl by (intro keep) simp_all
        next
          case (Inr np)
          show ?thesis
          proof (cases "d_gt np (maxProfit s)")
            case True
            then have new: "maxProfit s' = np" "optimalAmount s' = mid"
              using False Inr by (simp_all add: step Let_def)
            have lt: "val (maxProfit s) < val np" using True by (simp add: d_gt_val)
            with nonneg new have i: "improves poolA poolB g s' r" using IH by simp
            show ?thesis
              by (rule improves_step_new [OF c Inr [unfolded mid_def] new(1) [unfolded s'_def]
                    new(2) [unfolded s'_def mid_def] lt i [unfolded s'_def]])
          next
            case nogain: False
            then have same: "maxProfit s' = maxProfit s" "optimalAmount s' = optimalAmount s"
              using False Inr by (simp_all add: step Let_def)
            then show ?thesis using Inr nogain by (intro keep) (simp_all add: d_gt_val)
          qed
        qed
      qed
    qed
  qed
qed

lemma findOptimalTradeSize_improves:
  assumes "findOptimalTradeSize poolA poolB maxAmount gasCost = Some (amt, prof)"
  shows "\<exists>r. optimalAmount r = amt \<and> maxProfit r = prof \<and>
           improves poolA poolB (Decimal gasCost) (search_start maxAmount) r"
proof -
  from assms obtain r where
    r: "search_loop poolA poolB (Decimal gasCost) (search_start maxAmount) = Some r"
      "optimalAmount r = amt" "maxProfit r = prof"
    by (auto simp add: findOptimalTradeSize_def)
  have "0 \<le> val (maxProfit (search_start maxAmount))" by (simp add: search_start_def)
  with search_loop_improves [OF r(1)] r show ?thesis by blast
qed


lemmas loop_eval = netProfitAt_def midpoint_def search_step_def search_continues_def
  search_loop.simps search_start_def findOptimalTradeSize_def getAmountOut_def dec_eval

lemma findOptimalTradeSize_best_probe:
  assumes "findOptimalTradeSize poolA poolB maxAmount gasCost = Some (amt, prof)"
  shows "(amt = Decimal 0 \<and> prof = Decimal 0 \<or>
          probed poolA poolB (Decimal gasCost) (search_start maxAmount) amt \<and>
          netProfitAt poolA poolB (Decimal gasCost) amt = Inr prof \<and> 0 < val prof)
       \<and> (\<forall>m p. probed poolA poolB (Decimal gasCost) (search_start maxAmount) m \<and>
             netProfitAt poolA poolB (Decimal gasCost) m = Inr p \<longrightarrow> val p \<le> val prof)"
proof -
  from findOptimalTradeSize_improves [OF assms] obtain r where
    r: "optimalAmount r = amt" "maxProfit r = prof"
      "improves poolA poolB (Decimal gasCost) (search_start maxAmount) r" by blast
  have s: "optimalAmount (search_start maxAmount) = Decimal 0"
    "maxProfit (search_start maxAmount) = Decimal 0" by (simp_all add: search_start_def)
  from r(3) show ?thesis unfolding improves_def r s by auto
qed

lemma findOptimalTradeSize_no_loss:
  assumes "findOptimalTradeSize poolA poolB maxAmount gasCost = Some (amt, prof)"
  shows "0 \<le> val prof
       \<and> ((\<forall>m p. probed poolA poolB (Decimal gasCost) (search_start maxAmount) m \<and>
              netProfitAt poolA poolB (Decimal gasCost) m = Inr p \<longrightarrow> val p \<le> 0)
            \<longrightarrow> amt = Decimal 0 \<and> prof = Decimal 0)"
proof -
  from findOptimalTradeSize_best_probe [OF assms]
  have a: "amt = Decimal 0 \<and> prof = Decimal 0 \<or>
      probed poolA poolB (Decimal gasCost) (search_start maxAmount) amt \<and>
      netProfitAt poolA poolB (Decimal gasCost) amt = Inr prof \<and> 0 < val prof" by blast
  then have "0 \<le> val prof" by auto
  with a show ?thesis by fastforce
qed

lemma search_trace_loop:
  "\<not> search_continues (snd (search_trace n poolA poolB g ps s)) \<Longrightarrow>
     search_loop poolA poolB g s = Some (snd (search_trace n poolA poolB g ps s))"
proof (induction n arbitrary: ps s)
  case 0
  then show ?case by (simp add: search_loop.simps)
next
  case (Suc n)
  show ?case
  proof (cases "search_continues s")
    case True
    with Suc.prems
    have "\<not> search_continues
        (snd (search_trace n poolA poolB g (ps @ [midpoint s]) (search_step poolA poolB g s)))"
      by simp
    from Suc.IH [OF this] True show ?thesis
      by (simp add: search_loop.simps [of poolA poolB g s])
  next
    case False
    then show ?thesis by (simp add: search_loop.simps [of poolA poolB g s])
  qed
qed

lemma search_trace_probed:
  "\<not> search_continues (snd (search_trace n poolA poolB g ps s)) \<Longrightarrow>
     set (fst (search_trace n poolA poolB g ps s)) = set ps \<union> {m. probed poolA poolB g s m}"
proof (induction n arbitrary: ps s)
  case 0
  then show ?case by (auto elim: probed.cases)
next
  case (Suc n)
  show ?case
  proof (cases "search_continues s")
    case True
    with Suc.prems
    have "\<not> search_continues
        (snd (search_trace n poolA poolB g (ps @ [midpoint s]) (search_step poolA poolB g s)))"
      by simp
    from Suc.IH [OF this]
    have IH: "set (fst (search_trace n poolA poolB g (ps @ [midpoint s])
                     (search_step poolA poolB g s)))
        = set (ps @ [midpoint s]) \<union> {m. probed poolA poolB g (search_step poolA poolB g s) m}" .
    have "{m. probed poolA poolB g s m}
        = {midpoint s} \<union> {m. probed poolA poolB g (search_step poolA poolB g s) m}"
      using True by (auto intro: probed.intros dest: probed_cases)
    with IH True show ?thesis by auto
  next
    case False
    then show ?thesis by (auto elim: probed.cases)
  qed
qed

lemma search_trace_numeral:
  "search_trace (numeral k) poolA poolB g ps s =
     (if search_continues s
      then search_trace (pred_numeral k) poolA poolB g (ps @ [midpoint s])
             (search_step poolA poolB g s)
      else (ps, s))"
  by (simp add: numeral_eq_Suc)

lemma beyond_trace:
  "search_trace 64 \<lparr>reserveIn = 64196701842078799091, reserveOut = 2\<rparr>
     \<lparr>reserveIn = 1, reserveOut = 1000000000000000000000000000000\<rparr> (Decimal 0) []
     (search_start 64389871456448143519) =
   (map Decimal
      [32194935728224071760, 48292403592336107640, 56341137524392125580,
       60365504490420134550, 62377687973434139035, 63383779714941141280,
       63886825585694642400, 64138348521071392960, 64264109988759768240,
       64326990722603955880, 64358431089526049700, 64374151272987096610,
       64382011364717620065, 64385941410582881795, 64387906433515512660,
       64388888944981828090, 64389380200714985805, 64389625828581564665,
       64389748642514854095, 64389810049481498810, 64389840752964821165,
       64389856104706482345, 64389863780577312935, 64389867618512728230,
       64389869537480435875, 64389870496964289700, 64389870976706216610,
       64389871216577180065, 64389871336512661795, 64389871396480402660,
       64389871426464273090, 64389871441456208305, 64389871448952175915,
       64389871452700159720, 64389871454574151620, 64389871455511147570,
       64389871455979645545, 64389871456213894535, 64389871456331019030,
       64389871456389581275, 64389871456418862400, 64389871456433502960,
       64389871456440823240, 64389871456444483380, 64389871456446313450,
       64389871456447228485, 64389871456447686005, 64389871456447914765,
       64389871456448029145, 64389871456448086335, 64389871456448114930,
       64389871456448129225, 64389871456448136375, 64389871456448139950,
       64389871456448141735, 64389871456448142630, 64389871456448143075,
       64389871456448143300, 64389871456448143410, 64389871456448143465,
       64389871456448143495, 64389871456448143510, 64389871456448143515,
       64389871456448143520],
    \<lparr>low = Decimal 64389871456448143520, high = Decimal 64389871456448143519,
     optimalAmount = Decimal 64389871456448143520,
     maxProfit = Dec 49924887324557507596 10\<rparr>)"
  by (simp add: loop_eval search_trace_numeral cong: let_weak_cong)

lemma beyond_in_range:
  "list_all (\<lambda>m. netProfitAt \<lparr>reserveIn = 64196701842078799091, reserveOut = 2\<rparr>
       \<lparr>reserveIn = 1, reserveOut = 1000000000000000000000000000000\<rparr> (Decimal 0) m = Inl InvalidAmountIn)
     (butlast (fst (search_trace 64 \<lparr>reserveIn = 64196701842078799091, reserveOut = 2\<rparr>
        \<lparr>reserveIn = 1, reserveOut = 1000000000000000000000000000000\<rparr> (Decimal 0) []
        (search_start 64389871456448143519))))"
  unfolding beyond_trace
  by (simp add: netProfitAt_def getAmountOut_def dec_eval cong: let_weak_cong)

section \<open>Facts about the failover\<close>

lemma on_failure_keeps_provider:
  "snd now - fst now \<le> cooldownPeriod m \<Longrightarrow>
     currentProviderIndex (on_failure m now) = currentProviderIndex m \<and>
     cooldownPeriod (on_failure m now) = cooldownPeriod m \<and>
     failureCount (on_failure m now) = failureCount m + 1"
  by (simp add: on_failure_def shouldRotateProvider_def Let_def)

lemma attempts_never_rotate:
  "\<forall>k. snd (clock k) - fst (clock k) \<le> cooldownPeriod m \<Longrightarrow>
     currentProviderIndex (fst (attempts operation clock n k m)) = currentProviderIndex m"
proof (induction n arbitrary: k m)
  case 0
  then show ?case by simp
next
  case (Suc n)
  show ?case
  proof (cases "operation k (currentProviderIndex m)")
    case None
    from Suc.prems have "snd (clock k) - fst (clock k) \<le> cooldownPeriod m" by blast
    then have keep: "currentProviderIndex (on_failure m (clock k)) = currentProviderIndex m"
      "cooldownPeriod (on_failure m (clock k)) = cooldownPeriod m"
      by (simp_all add: on_failure_keeps_provider)
    from Suc.prems keep
    have "\<forall>j. snd (clock j) - fst (clock j) \<le> cooldownPeriod (on_failure m (clock k))"
      by simp
    from Suc.IH [OF this] keep None show ?thesis by simp
  next
    case (Some r)
    then show ?thesis by simp
  qed
qed

lemma attempts_all_fail:
  "\<forall>k. snd (clock k) - fst (clock k) \<le> cooldownPeriod m \<Longrightarrow>
   \<forall>k. operation k (currentProviderIndex m) = None \<Longrightarrow>
     snd (attempts operation clock n k m) = None \<and>
     failureCount (fst (attempts operation clock n k m)) = failureCount m + int n"
proof (induction n arbitrary: k m)
  case 0
  then show ?case by simp
next
  case (Suc n)
  from Suc.prems have "snd (clock k) - fst (clock k) \<le> cooldownPeriod m" by blast
  then have keep: "currentProviderIndex (on_failure m (clock k)) = currentProviderIndex m"
    "cooldownPeriod (on_failure m (clock k)) = cooldownPeriod m"
    "failureCount (on_failure m (clock k)) = failureCount m + 1"
    by (simp_all add: on_failure_keeps_provider)
  from Suc.prems keep
  have a: "\<forall>j. snd (clock j) - fst (clock j) \<le> cooldownPeriod (on_failure m (clock k))"
    and b: "\<forall>j. operation j (currentProviderIndex (on_failure m (clock k))) = None"
    by simp_all
  from Suc.IH [OF a b] keep Suc.prems(2) show ?case by simp
qed

section \<open>Facts about the table of opportunities\<close>

lemma opportunityId_params [simp]: "opportunityId (params opp) = opportunityId opp"
  by (simp add: params_def)

lemma rows_with_id_insert:
  "filter (\<lambda>r. opportunityId r = Some i) (insert_or_replace row rows) =
     (if opportunityId row = Some i then [row]
      else filter (\<lambda>r. opportunityId r = Some i) rows)"
  by (induction rows) (auto simp add: insert_or_replace_def)

lemma store_same_id_once:
  assumes "opportunityId opp = Some i" "length (rows_with_id db i) = 1"
  shows "length (rows_with_id (storeOpportunity db opp) i) = 1"
  using assms by (simp add: storeOpportunity_def rows_with_id_def rows_with_id_insert)

lemma store_same_id_many:
  assumes "\<forall>opp \<in> set opps. opportunityId opp = Some i" "length (rows_with_id db i) = 1"
  shows "length (rows_with_id (foldl storeOpportunity db opps) i) = 1"
  using assms
proof (induction opps arbitrary: db)
  case Nil
  then show ?case by simp
next
  case (Cons opp opps)
  then have "length (rows_with_id (storeOpportunity db opp) i) = 1"
    by (simp add: store_same_id_once)
  with Cons show ?case by simp
qed

lemma store_first:
  assumes "isInitialized db" "opportunityId opp = Some i" "pair opp \<noteq> None"
    "timestamp opp \<noteq> None"
  shows "rows_with_id (storeOpportunity db opp) i = [params opp]"
  using assms
  by (simp add: storeOpportunity_def rows_with_id_def rows_with_id_insert not_null_ok_def
      params_def)

lemma store_at_most_one:
  assumes "length (rows_with_id db i) \<le> 1"
  shows "length (rows_with_id (storeOpportunity db opp) i) \<le> 1"
  using assms by (simp add: storeOpportunity_def rows_with_id_def rows_with_id_insert)

lemma store_twice:
  assumes "opportunityId opp \<noteq> None"
  shows "storeOpportunity (storeOpportunity db opp) opp = storeOpportunity db opp"
  using assms by (simp add: storeOpportunity_def insert_or_replace_def)

lemma isInitialized_storeOpportunity [simp]:
  "isInitialized (storeOpportunity db opp) = isInitialized db"
  by (simp add: storeOpportunity_def)

lemma store_last_wins:
  assumes "isInitialized db"
    "\<forall>x \<in> set (opp # opps). opportunityId x = Some i \<and> pair x \<noteq> None \<and> timestamp x \<noteq> None"
  shows "rows_with_id (foldl storeOpportunity db (opp # opps)) i = [params (last (opp # opps))]"
  using assms
proof (induction opps arbitrary: db opp)
  case Nil
  then show ?case by (simp add: store_first)
next
  case (Cons x xs)
  have "isInitialized (storeOpportunity db opp)" using Cons.prems(1) by simp
  moreover have "\<forall>y \<in> set (x # xs). opportunityId y = Some i \<and> pair y \<noteq> None \<and> timestamp y \<noteq> None"
    using Cons.prems(2) by simp
  ultimately have "rows_with_id (foldl storeOpportunity (storeOpportunity db opp) (x # xs)) i
      = [params (last (x # xs))]"
    by (rule Cons.IH)
  then show ?case by simp
qed

lemma store_other_ids:
  assumes "opportunityId opp \<noteq> Some j"
  shows "rows_with_id (storeOpportunity db opp) j = rows_with_id db j"
  using assms
  by (simp add: storeOpportunity_def rows_with_id_def rows_with_id_insert)

lemma params_fields:
  "type (params opp) = Some (case or_null (type opp) of None \<Rightarrow> ''direct'' | Some t \<Rightarrow> t)"
  "pair (params opp) = pair opp"
  "netProfitUSD (params opp) = netProfitUSD opp"
  "timestamp (params opp) = timestamp opp"
  by (simp_all add: params_def)

lemma storeOpportunity_first_row:
  "isInitialized db \<Longrightarrow> opportunities db = [] \<Longrightarrow> pair opp \<noteq> None \<Longrightarrow> timestamp opp \<noteq> None \<Longrightarrow>
     opportunities (storeOpportunity db opp) = [params opp]"
  by (simp add: storeOpportunity_def not_null_ok_def params_fields insert_or_replace_def)

section \<open>Facts about the engine\<close>

lemma val_eq_0_iff: "val d = 0 \<longleftrightarrow> coef d = 0"
  by (simp add: val_def)

lemma not_n_lt_at_least: "x \<noteq> NaN \<Longrightarrow> \<not> n_lt x (Finite b) \<longleftrightarrow> at_least x b"
  by (cases x) (simp_all add: at_least_def d_lt_val n_rank_def not_less)

lemma qualifyOpportunity_result:
  assumes "netProfitUSD opp = Some netProfit" "profitMargin opp = Some margin"
    "buyLiquidityUSD opp = Some buyLiquidity" "sellLiquidityUSD opp = Some sellLiquidity"
    "expiresAt opp = Some expires"
    "netProfit \<noteq> NaN" "margin \<noteq> NaN" "buyLiquidity \<noteq> NaN" "sellLiquidity \<noteq> NaN"
  shows "qualifyOpportunity engine now opp =
     (if at_least netProfit (options.minProfitUSD (options engine))
         \<and> at_least margin (minProfitMargin (options engine))
         \<and> at_least buyLiquidity (minLiquidityUSD (options engine))
         \<and> at_least sellLiquidity (minLiquidityUSD (options engine))
         \<and> now \<le> expires
      then (engine\<lparr>opportunitiesQualified := opportunitiesQualified engine + 1\<rparr>,
            opp\<lparr>qualified := Some True\<rparr>, True)
      else (engine, opp, False))"
  using assms by (simp add: qualifyOpportunity_def Let_def not_n_lt_at_least [symmetric])

lemma default_options_fields:
  "options.minProfitUSD default_options = Decimal 10"
  "minProfitMargin default_options = Dec 5 (- 3)"
  "maxPositionSizeUSD default_options = 10000"
  "gasBuffer default_options = Dec 12 (- 1)"
  "opportunityTimeout default_options = 30000"
  "minLiquidityUSD default_options = Decimal 100000"
  by (simp_all add: default_options_def)

lemma search_example:
  "findOptimalTradeSize \<lparr>reserveIn = 1000000, reserveOut = 2100000\<rparr>
     \<lparr>reserveIn = 2000000, reserveOut = 1000000\<rparr> 10000 60 = Some (Decimal 9921, Decimal 168)"
  by (simp add: loop_eval cong: let_weak_cong)

lemma calculateOptimalTradeSize_example:
  "calculateOptimalTradeSize default_options
     \<lparr>dex = ''uniswap'', price0 = Decimal 2, liquidityUSD = Decimal 1000000,
      reserves = [1000000, 2100000], pairAddress = ''0xPAIR1''\<rparr>
     \<lparr>dex = ''sushiswap'', price0 = Dec 21 (- 1), liquidityUSD = Decimal 1000000,
      reserves = [1000000, 2000000], pairAddress = ''0xPAIR2''\<rparr> = Some (Decimal 9921)"
  unfolding calculateOptimalTradeSize_def
  by (simp add: default_options_fields search_example Decimal_def d_lte_def scaled_def toInt_def
      d_floor_def cong: let_weak_cong option.case_cong_weak)

lemmas engine_eval =
  calculateGasCost_def default_options_fields no_fields_def
  show_int_def show_nat.simps digit_char_def of_sign_def n_sign_def n_rank_def dec_eval

lemma calculateArbitrageOpportunity_example:
  "map_option (map_option (\<lambda>opp. (netProfitUSD opp, gasCostUSD opp, profitMargin opp)))
     (calculateArbitrageOpportunity default_options 0
       \<lparr>tokenA = ''0xTOKENA'', tokenB = ''0xTOKENB''\<rparr>
       \<lparr>dex = ''uniswap'', price0 = Decimal 2, liquidityUSD = Decimal 1000000,
        reserves = [1000000, 2100000], pairAddress = ''0xPAIR1''\<rparr>
       \<lparr>dex = ''sushiswap'', price0 = Dec 21 (- 1), liquidityUSD = Decimal 1000000,
        reserves = [1000000, 2000000], pairAddress = ''0xPAIR2''\<rparr>
       (Some 1000000000) ''latest'')
   = Some (Some (Some (Finite (Dec 49533000000000000000 (- 17))),
                 Some (Finite (Dec 72000000000000000000 (- 20))),
                 Some (Finite (Dec 68795833333333333333 (- 17)))))"
  unfolding calculateArbitrageOpportunity_def calculateGrossProfit_def generateOpportunityId_def
    calculateOptimalTradeSize_example
  by (simp add: engine_eval cong: let_weak_cong option.case_cong_weak)

lemma calculateGasCost_example:
  "calculateGasCost default_options (Some 1000000000) = Dec 72000000000000000000 (- 20)"
  by (simp add: engine_eval cong: let_weak_cong option.case_cong_weak)

lemma calculateOptimalTradeSize_zero_prices:
  "calculateOptimalTradeSize default_options
     \<lparr>dex = ''uniswap'', price0 = Decimal 0, liquidityUSD = Decimal 1000000,
      reserves = [1000000, 2100000], pairAddress = ''0xPAIR1''\<rparr>
     \<lparr>dex = ''sushiswap'', price0 = Decimal 0, liquidityUSD = Decimal 1000000,
      reserves = [1000000, 2000000], pairAddress = ''0xPAIR2''\<rparr> = Some (Decimal 9921)"
  unfolding calculateOptimalTradeSize_def
  by (simp add: default_options_fields search_example Decimal_def d_lte_def scaled_def toInt_def
      d_floor_def cong: let_weak_cong option.case_cong_weak)

lemma zero_prices_qualify:
  "map_option (map_option (\<lambda>opp. (netProfitUSD opp, profitMargin opp,
       snd (snd (qualifyOpportunity \<lparr>options = default_options, opportunitiesQualified = 0\<rparr>
                   0 opp)))))
     (calculateArbitrageOpportunity default_options 0
       \<lparr>tokenA = ''0xTOKENA'', tokenB = ''0xTOKENB''\<rparr>
       \<lparr>dex = ''uniswap'', price0 = Decimal 0, liquidityUSD = Decimal 1000000,
        reserves = [1000000, 2100000], pairAddress = ''0xPAIR1''\<rparr>
       \<lparr>dex = ''sushiswap'', price0 = Decimal 0, liquidityUSD = Decimal 1000000,
        reserves = [1000000, 2000000], pairAddress = ''0xPAIR2''\<rparr>
       (Some 20000000000) ''latest'')
   = Some (Some (Some NaN, Some NaN, True))"
  unfolding calculateArbitrageOpportunity_def calculateGrossProfit_def generateOpportunityId_def
    calculateOptimalTradeSize_zero_prices
  by (simp add: engine_eval qualifyOpportunity_def cong: let_weak_cong option.case_cong_weak)

lemma calculateArbitrageOpportunity_fields:
  assumes "calculateArbitrageOpportunity opts now pr buy sell gasPrice bn = Some (Some opp)"
  shows "\<exists>amount. calculateOptimalTradeSize opts buy sell = Some amount \<and>
           gasCostUSD opp = Some (Finite (calculateGasCost opts gasPrice)) \<and>
           netProfitUSD opp =
             Some (n_minus (calculateGrossProfit amount (price0 buy) (price0 sell))
                     (Finite (calculateGasCost opts gasPrice))) \<and>
           profitMargin opp =
             Some (n_div (n_minus (calculateGrossProfit amount (price0 buy) (price0 sell))
                            (Finite (calculateGasCost opts gasPrice)))
                     (Finite (calculateGasCost opts gasPrice)))"
  using assms unfolding calculateArbitrageOpportunity_def
  by (auto simp add: Let_def split: if_splits option.splits)

section \<open>Facts about the bot\<close>

lemma default_config_fields:
  "supportedDEXs default_config = [''uniswap'', ''sushiswap'']"
  "config.minProfitUSD default_config = Decimal 10"
  "safetyMargin default_config = Dec 1 (- 1)"
  "gasEstimate default_config = 300000"
  "ethPriceUSD default_config = 2000"
  "testMode default_config = True"
  "enableRealPriceFetching default_config = True"
  by (simp_all add: default_config_def)

lemma calculateTriangularArbitrage_unit_prices:
  "calculateTriangularArbitrage default_config now tp d1 d2
     \<lparr>AB = Some (Decimal 1), BC = Some (Decimal 1), AC = Some (Decimal 1)\<rparr>
     \<lparr>AB = Some (Decimal 1), BC = Some (Decimal 1), AC = Some (Decimal 1)\<rparr>
     (Some 20000000000) = None"
  unfolding calculateTriangularArbitrage_def
  by (simp add: default_config_fields calculateGasCost_bot_def calculateTriangularSwapFees_def
      of_sign_def n_sign_def n_rank_def dec_eval cong: let_weak_cong option.case_cong_weak)

lemma detectTriangularArbitrage_unit_prices:
  "detectTriangularArbitrage default_config (\<lambda>a b d. Some (Decimal 1)) now tp
     (Some 20000000000) = []"
  by (simp add: detectTriangularArbitrage_def default_config_fields List.map_filter_def
      calculateTriangularArbitrage_unit_prices)

lemma scan_pairs_nothing_found:
  "config (fst s) = default_config \<Longrightarrow>
     scan_pairs (\<lambda>a b d. Some (Decimal 1)) (Some 20000000000) now tps s = Inr s"
  by (induction tps) (simp_all add: detectTriangularArbitrage_unit_prices)

lemma test_triangular_fields:
  "type (generateTestOpportunities now ! 3) = Some ''triangular''"
  "pair (generateTestOpportunities now ! 3) = Some (PairName ''WETH/USDC/USDT'')"
  "netProfitUSD (generateTestOpportunities now ! 3) = Some (Finite (Dec (- 5650) (- 2)))"
  by (simp_all add: generateTestOpportunities_def no_fields_def)

lemma test_triangular_only:
  "filter (\<lambda>opp. type opp = Some ''triangular'') (generateTestOpportunities now) =
     [generateTestOpportunities now ! 3]"
  by (simp add: generateTestOpportunities_def testDirectOpportunity_def no_fields_def Let_def)

section \<open>The claims\<close>

text \<open>
  C1 (the code departs from the claim).  The claim: for positive arguments \<open>getAmountOut\<close>
  returns the floor of \<open>amountIn * 997 * reserveOut / (reserveIn * 1000 + amountIn * 997)\<close>, and
  the result is below \<open>reserveOut\<close>.  The source computes with 20 significant digits, so on
  amounts of ordinary size in wei it returns another number: selling 1 token (18 decimals) into
  a pool of 5000 against 10 000 000 tokens returns 1993602475666352129400, where the floor of
  the formula is 1993602475666352129385; and \<open>getAmountOut 10^21 1 3\<close> returns 3, which is not
  below the reserve 3.  (Where no operation is rounded the source computes the claimed floor
  and raises the claimed errors: \<open>getAmountOut_in_range\<close>, \<open>getAmountOut_errors\<close>.)
\<close>

theorem C1_getAmountOut_keeps_20_digits:
  "getAmountOut 1000000000000000000 5000000000000000000000 10000000000000000000000000
     = Inr 1993602475666352129400
   \<and> (1000000000000000000 * 997 * 10000000000000000000000000) div
       (5000000000000000000000 * 1000 + 1000000000000000000 * 997)
     = (1993602475666352129385 :: int)
   \<and> getAmountOut 1000000000000000000000 1 3 = Inr 3"
  by (simp add: getAmountOut_def dec_eval cong: let_weak_cong)

text \<open>
  C2 (corrected).  The claim: \<open>getAmountIn\<close> returns the floor of
  \<open>reserveIn * amountOut * 1000 / ((reserveOut - amountOut) * 997)\<close> plus one.  The source
  takes the ceiling, as its comment says, so it returns one more whenever the quotient is not
  an integer: for 1000 out of reserves 10000 and 10000 it returns 1116, and the floor plus
  one is 1115.
\<close>

theorem C2_getAmountIn_is_not_floor_plus_one:
  "getAmountIn 1000 10000 10000 = Inr 1116
   \<and> (Inr 1116 :: error + int) \<noteq> Inr ((10000 * 1000 * 1000) div ((10000 - 1000) * 997) + 1)"
  by (simp add: getAmountIn_def dec_eval cong: let_weak_cong)

text \<open>
  C2 as amended: as long as the products \<open>reserveIn * amountOut * 1000\<close> and
  \<open>reserveOut * 997\<close> stay below \<open>10^19\<close> and \<open>10^20\<close> (so that no operation is rounded),
  \<open>getAmountIn\<close> returns the ceiling of the quotient plus one; an argument that is not
  positive fails with the invalid-input error, and \<open>amountOut \<ge> reserveOut\<close> with the
  insufficient-liquidity error.
\<close>

theorem C2_getAmountIn_ceil_plus_one:
  "(0 < aOut \<and> aOut < rOut \<and> 0 < rIn \<and> rIn * aOut * 1000 < 10 ^ 19 \<and> rOut * 997 < 10 ^ 20
      \<longrightarrow> getAmountIn aOut rIn rOut =
            Inr (\<lceil>(of_int (rIn * aOut * 1000) :: rat) / of_int ((rOut - aOut) * 997)\<rceil> + 1))
   \<and> (aOut \<le> 0 \<or> rIn \<le> 0 \<or> rOut \<le> 0 \<longrightarrow> getAmountIn aOut rIn rOut = Inl InvalidInput)
   \<and> (0 < aOut \<and> 0 < rIn \<and> 0 < rOut \<and> rOut \<le> aOut
      \<longrightarrow> getAmountIn aOut rIn rOut = Inl InsufficientLiquidity)"
  using getAmountIn_in_range [of aOut rOut rIn] getAmountIn_errors [of aOut rIn rOut]
  by blast

theorem C2_getAmountIn_ceil_plus_one_witness:
  "(0 < (1000::int) \<and> (1000::int) < 10000 \<and> 0 < (10000::int)
      \<and> (10000::int) * 1000 * 1000 < 10 ^ 19 \<and> (10000::int) * 997 < 10 ^ 20)
   \<and> getAmountIn 1000 10000 10000 =
        Inr (\<lceil>(of_int (10000 * 1000 * 1000) :: rat) / of_int ((10000 - 1000) * 997)\<rceil> + 1)
   \<and> getAmountIn 0 10000 10000 = Inl InvalidInput
   \<and> getAmountIn 10000 10000 10000 = Inl InsufficientLiquidity"
  using C2_getAmountIn_ceil_plus_one [of 1000 10000 10000]
    C2_getAmountIn_ceil_plus_one [of 0 10000 10000]
    C2_getAmountIn_ceil_plus_one [of 10000 10000 10000]
  by simp

text \<open>
  C3 (the code departs from the claim).  The claim: feeding the result of \<open>getAmountIn\<close>
  back into \<open>getAmountOut\<close> on the same reserves yields at least the requested output.  With
  20 significant digits it does not: asking for 50 tokens (18 decimals) out of a pool of 1000
  against 1000 tokens gives an input whose output is one unit short of the 50 tokens.
\<close>

theorem C3_round_trip_falls_short:
  "getAmountIn 50000000000000000000 1000000000000000000000 1000000000000000000000
     = Inr 52789948793749670064
   \<and> getAmountOut 52789948793749670064 1000000000000000000000 1000000000000000000000
     = Inr 49999999999999999999"
  by (simp add: getAmountIn_def getAmountOut_def dec_eval cong: let_weak_cong)

text \<open>
  Claim C4 (the optimal trade size).  The claim: \<open>findOptimalTradeSize\<close> returns an amount in
  \<open>[1, maxAmount]\<close> whose net profit is within 1 of the maximum over that interval.  The
  source bisects on the sign of the profit and keeps the best midpoint it has met; it probes
  neither 1 nor \<open>maxAmount\<close>.  With pools 212/1663 and 1204/1468, \<open>maxAmount = 3\<close> and gas 3
  the profit is 4, 13, 21 at the amounts 1, 2, 3, and the function returns amount 2 with
  profit 13.  With pools 468/1546 and 1797/1780, \<open>maxAmount = 4\<close> and gas 4 the profit is
  -3, -1, 1, 4, and it returns amount 0 with profit 0.
\<close>

theorem C4_findOptimalTradeSize_misses_the_maximum:
  "findOptimalTradeSize \<lparr>reserveIn = 212, reserveOut = 1663\<rparr>
       \<lparr>reserveIn = 1204, reserveOut = 1468\<rparr> 3 3 = Some (Decimal 2, Decimal 13)
   \<and> netProfitAt \<lparr>reserveIn = 212, reserveOut = 1663\<rparr> \<lparr>reserveIn = 1204, reserveOut = 1468\<rparr>
       (Decimal 3) (Decimal 1) = Inr (Decimal 4)
   \<and> netProfitAt \<lparr>reserveIn = 212, reserveOut = 1663\<rparr> \<lparr>reserveIn = 1204, reserveOut = 1468\<rparr>
       (Decimal 3) (Decimal 2) = Inr (Decimal 13)
   \<and> netProfitAt \<lparr>reserveIn = 212, reserveOut = 1663\<rparr> \<lparr>reserveIn = 1204, reserveOut = 1468\<rparr>
       (Decimal 3) (Decimal 3) = Inr (Decimal 21)
   \<and> findOptimalTradeSize \<lparr>reserveIn = 468, reserveOut = 1546\<rparr>
       \<lparr>reserveIn = 1797, reserveOut = 1780\<rparr> 4 4 = Some (Decimal 0, Decimal 0)
   \<and> netProfitAt \<lparr>reserveIn = 468, reserveOut = 1546\<rparr> \<lparr>reserveIn = 1797, reserveOut = 1780\<rparr>
       (Decimal 4) (Decimal 4) = Inr (Decimal 4)"
  by (simp add: loop_eval cong: let_weak_cong)

text \<open>
  Claim C5 (qualified opportunities meet the thresholds).  The claim: every opportunity for
  which \<open>qualifyOpportunity\<close> returns true has a net profit of at least \<^verbatim>\<open>minProfitUSD\<close>, a
  margin of at least \<^verbatim>\<open>minProfitMargin\<close>, both liquidities of at least \<^verbatim>\<open>minLiquidityUSD\<close> and
  has not expired.  The source rejects an opportunity when \<^verbatim>\<open>lessThan\<close> holds for one of the
  amounts, and \<^verbatim>\<open>lessThan\<close> is false on \<^verbatim>\<open>NaN\<close>, which \<^verbatim>\<open>new Decimal\<close> accepts.  So with the
  default options an opportunity whose net profit is \<^verbatim>\<open>NaN\<close>, with the other amounts of the
  repository's own test, is qualified and counted, although its net profit is not at least
  \<^verbatim>\<open>minProfitUSD\<close>.  The engine makes such opportunities itself: when both prices are 0,
  \<open>calculateArbitrageOpportunity\<close> records a net profit and a margin of \<^verbatim>\<open>NaN\<close>, and
  \<open>qualifyOpportunity\<close> accepts the result (lemma \<open>zero_prices_qualify\<close>).  For amounts
  other than \<^verbatim>\<open>NaN\<close> and an \<^verbatim>\<open>expiresAt\<close> that is set, the function returns true exactly
  when the five conditions hold (lemma \<open>qualifyOpportunity_result\<close>).
\<close>

theorem C5_qualifyOpportunity_accepts_NaN:
  "qualifyOpportunity \<lparr>options = default_options, opportunitiesQualified = 0\<rparr> 1000
     (no_fields\<lparr>netProfitUSD := Some NaN,
                profitMargin := Some (Finite (Dec 1 (- 1))),
                buyLiquidityUSD := Some (Finite (Decimal 1000000)),
                sellLiquidityUSD := Some (Finite (Decimal 1000000)),
                expiresAt := Some 61000\<rparr>)
   = (\<lparr>options = default_options, opportunitiesQualified = 1\<rparr>,
      no_fields\<lparr>netProfitUSD := Some NaN,
                profitMargin := Some (Finite (Dec 1 (- 1))),
                buyLiquidityUSD := Some (Finite (Decimal 1000000)),
                sellLiquidityUSD := Some (Finite (Decimal 1000000)),
                expiresAt := Some 61000,
                qualified := Some True\<rparr>,
      True)
   \<and> \<not> at_least NaN (options.minProfitUSD default_options)"
  by (simp add: qualifyOpportunity_def default_options_fields no_fields_def n_rank_def at_least_def
      dec_eval cong: let_weak_cong)

text \<open>
  Claim C6 (only profitable triangular opportunities are stored).  The claim: no triangular
  opportunity with a negative net profit is ever inserted.  \<^verbatim>\<open>calculateTriangularArbitrage\<close>
  does return nothing unless the profit after the safety margin reaches \<^verbatim>\<open>minProfitUSD\<close>, but
  \<^verbatim>\<open>scanTriangularArbitrage\<close> goes on: in test mode, which the constructor turns on, a scan
  whose number is a multiple of 15 and which found no opportunity stores the triangular test
  opportunity, whose net profit is written out as -56.50.  With the configuration and the
  statistics of the constructor, an initialised empty database, a price of 1 for every pair
  and a gas price of 20 gwei, no cycle is profitable, and the first scan leaves one
  triangular row with the net profit -56.50 in the table.
\<close>

theorem C6_scanTriangularArbitrage_stores_a_loss:
  "map (\<lambda>row. (type row, netProfitUSD row))
     (opportunities (databaseService
        (scanTriangularArbitrage
           \<lparr>config = default_config,
            stats = \<lparr>opportunitiesFound = 0, triangularOpportunities = 0,
                     totalProfit = Finite (Decimal 0), scansCompleted = 0\<rparr>,
            databaseService = \<lparr>isInitialized = True, opportunities = []\<rparr>\<rparr>
           (\<lambda>a b d. Some (Decimal 1)) (Some 20000000000) 1700000000000)))
   = [(Some ''triangular'', Some (Finite (Dec (- 5650) (- 2))))]
   \<and> val (Dec (- 5650) (- 2)) < 0"
proof -
  let ?self = "\<lparr>config = default_config,
            stats = \<lparr>opportunitiesFound = 0, triangularOpportunities = 0,
                     totalProfit = Finite (Decimal 0), scansCompleted = 0\<rparr>,
            databaseService = \<lparr>isInitialized = True, opportunities = []\<rparr>\<rparr>"
  let ?t = "generateTestOpportunities 1700000000000 ! 3"
  have "scanTriangularArbitrage ?self (\<lambda>a b d. Some (Decimal 1)) (Some 20000000000)
          1700000000000 = store_test 1700000000000 ?self ?t"
    by (simp add: scanTriangularArbitrage_def scan_pairs_nothing_found default_config_fields
        test_triangular_only)
  then show ?thesis
    by (simp add: store_test_def storeOpportunity_first_row params_fields
        test_triangular_fields or_null_def val_def)
qed

theorem C6_scanTriangularArbitrage_stores_a_loss_witness:
  "length (opportunities (databaseService
     (scanTriangularArbitrage
        \<lparr>config = default_config,
         stats = \<lparr>opportunitiesFound = 0, triangularOpportunities = 0,
                  totalProfit = Finite (Decimal 0), scansCompleted = 0\<rparr>,
         databaseService = \<lparr>isInitialized = True, opportunities = []\<rparr>\<rparr>
        (\<lambda>a b d. Some (Decimal 1)) (Some 20000000000) 1700000000000))) = 1"
proof -
  let ?rows = "opportunities (databaseService
     (scanTriangularArbitrage
        \<lparr>config = default_config,
         stats = \<lparr>opportunitiesFound = 0, triangularOpportunities = 0,
                  totalProfit = Finite (Decimal 0), scansCompleted = 0\<rparr>,
         databaseService = \<lparr>isInitialized = True, opportunities = []\<rparr>\<rparr>
        (\<lambda>a b d. Some (Decimal 1)) (Some 20000000000) 1700000000000))"
  from C6_scanTriangularArbitrage_stores_a_loss
  have "map (\<lambda>row. (type row, netProfitUSD row)) ?rows
      = [(Some ''triangular'', Some (Finite (Dec (- 5650) (- 2))))]"
    by (rule conjunct1)
  then have "length (map (\<lambda>row. (type row, netProfitUSD row)) ?rows)
      = length [(Some ''triangular'', Some (Finite (Dec (- 5650) (- 2))))]"
    by (rule arg_cong)
  then show ?thesis by (simp only: length_map list.size)
qed

text \<open>
  Claim C7 (failover rule).  The claim: once the active endpoint has failed
  \<^verbatim>\<open>failoverThreshold\<close> times, \<^verbatim>\<open>executeWithFailover\<close> rotates to the next endpoint before the
  following attempt, the cooldown only spacing out successive rotations.  The code sets
  \<^verbatim>\<open>lastFailureTime\<close> to the current time and then asks \<^verbatim>\<open>shouldRotateProvider\<close> whether
  more than \<^verbatim>\<open>cooldownPeriod\<close> has passed since \<^verbatim>\<open>lastFailureTime\<close>.  So as long as the two
  readings of the clock taken after each failure are no more than \<^verbatim>\<open>cooldownPeriod\<close>
  apart, no call rotates, whatever the number of failures: every attempt runs on the same
  endpoint, and if that endpoint fails every time the call fails.  With two endpoints, the
  default threshold 3 and cooldown 60000, five attempts all run on the failing endpoint 0
  although endpoint 1 would answer.
\<close>

theorem C7_executeWithFailover_never_rotates:
  "(\<forall>k. snd (clock k) - fst (clock k) \<le> cooldownPeriod m) \<longrightarrow>
     currentProviderIndex (fst (executeWithFailover m operation optMaxAttempts clock))
       = currentProviderIndex m \<and>
     ((\<forall>k. operation k (currentProviderIndex m) = None) \<longrightarrow>
        snd (executeWithFailover m operation optMaxAttempts clock) = None)"
  by (simp add: executeWithFailover_def Let_def attempts_never_rotate attempts_all_fail)

theorem C7_executeWithFailover_never_rotates_witness:
  "executeWithFailover (new_Web3Manager 2 None None)
      (\<lambda>attempt provider. if provider = 1 then Some () else None) (Some 5)
      (\<lambda>attempt. (1000 + int attempt, 1000 + int attempt))
    = (\<lparr>providerCount = 2, currentProviderIndex = 0, failoverThreshold = 3, failureCount = 5,
         lastFailureTime = 1004, cooldownPeriod = 60000\<rparr>, None)"
  using C7_executeWithFailover_never_rotates
    [of "\<lambda>attempt. (1000 + int attempt, 1000 + int attempt)" "new_Web3Manager 2 None None"
        "\<lambda>attempt provider. if provider = 1 then Some () else None" "Some 5"]
  by (simp add: executeWithFailover_def new_Web3Manager_def on_failure_def
      shouldRotateProvider_def rotateProvider_def Let_def eval_nat_numeral)

text \<open>
  Claim C8 (one row per id, the last one stored).  Storing an opportunity whose id is
  already in the table does not add a second row: the new row replaces the old one.  In
  full: if the database is initialised and an opportunity with id \<open>i\<close>, a pair and a
  timestamp is stored, the rows with id \<open>i\<close> are then exactly the row of that opportunity,
  whatever the table held before; after any number of such opportunities the rows with id
  \<open>i\<close> are exactly the row of the last one; the rows with any other id are left as they
  were; and storing the same opportunity twice gives the same table as storing it once.
  Moreover, counting only: after a first successful store any further calls with the id
  \<open>i\<close>, successful or not, leave exactly one row with that id; a table with exactly one row
  of id \<open>i\<close> keeps exactly one; and no call makes a second row for an id that had at most
  one.
\<close>

theorem C8_storeOpportunity_one_row_per_id:
  "(isInitialized db \<and> opportunityId opp = Some i \<and> pair opp \<noteq> None \<and> timestamp opp \<noteq> None
      \<and> (\<forall>x \<in> set opps. opportunityId x = Some i)
     \<longrightarrow> length (rows_with_id (foldl storeOpportunity db (opp # opps)) i) = 1)
   \<and> (length (rows_with_id db i) = 1 \<and> (\<forall>x \<in> set opps. opportunityId x = Some i)
     \<longrightarrow> length (rows_with_id (foldl storeOpportunity db opps) i) = 1)
   \<and> (length (rows_with_id db i) \<le> 1
     \<longrightarrow> length (rows_with_id (storeOpportunity db opp) i) \<le> 1)
   \<and> (opportunityId opp \<noteq> None
     \<longrightarrow> storeOpportunity (storeOpportunity db opp) opp = storeOpportunity db opp)
   \<and> (isInitialized db \<and> opportunityId opp = Some i \<and> pair opp \<noteq> None \<and> timestamp opp \<noteq> None
     \<longrightarrow> rows_with_id (storeOpportunity db opp) i = [params opp])
   \<and> (isInitialized db
      \<and> (\<forall>x \<in> set (opp # opps).
            opportunityId x = Some i \<and> pair x \<noteq> None \<and> timestamp x \<noteq> None)
     \<longrightarrow> rows_with_id (foldl storeOpportunity db (opp # opps)) i = [params (last (opp # opps))])
   \<and> (opportunityId opp \<noteq> Some j
     \<longrightarrow> rows_with_id (storeOpportunity db opp) j = rows_with_id db j)"
proof (intro conjI impI)
  assume a: "isInitialized db \<and> opportunityId opp = Some i \<and> pair opp \<noteq> None
    \<and> timestamp opp \<noteq> None \<and> (\<forall>x \<in> set opps. opportunityId x = Some i)"
  then have "length (rows_with_id (storeOpportunity db opp) i) = 1"
    by (simp add: store_first)
  with a show "length (rows_with_id (foldl storeOpportunity db (opp # opps)) i) = 1"
    by (simp add: store_same_id_many)
next
  assume "length (rows_with_id db i) = 1 \<and> (\<forall>x \<in> set opps. opportunityId x = Some i)"
  then show "length (rows_with_id (foldl storeOpportunity db opps) i) = 1"
    by (simp add: store_same_id_many)
next
  assume "length (rows_with_id db i) \<le> 1"
  then show "length (rows_with_id (storeOpportunity db opp) i) \<le> 1"
    by (rule store_at_most_one)
next
  assume "opportunityId opp \<noteq> None"
  then show "storeOpportunity (storeOpportunity db opp) opp = storeOpportunity db opp"
    by (rule store_twice)
next
  assume "isInitialized db \<and> opportunityId opp = Some i \<and> pair opp \<noteq> None
    \<and> timestamp opp \<noteq> None"
  then show "rows_with_id (storeOpportunity db opp) i = [params opp]"
    by (simp add: store_first)
next
  assume "isInitialized db \<and> (\<forall>x \<in> set (opp # opps).
    opportunityId x = Some i \<and> pair x \<noteq> None \<and> timestamp x \<noteq> None)"
  then show "rows_with_id (foldl storeOpportunity db (opp # opps)) i
      = [params (last (opp # opps))]"
    using store_last_wins [of db opp opps i] by blast
next
  assume "opportunityId opp \<noteq> Some j"
  then show "rows_with_id (storeOpportunity db opp) j = rows_with_id db j"
    by (rule store_other_ids)
qed

theorem C8_storeOpportunity_one_row_per_id_witness:
  "map (\<lambda>row. (pair row, netProfitUSD row, timestamp row))
     (rows_with_id
        (foldl storeOpportunity
           \<lparr>isInitialized = True,
            opportunities =
              [no_fields\<lparr>opportunityId := Some ''t-1'', type := Some ''direct'',
                 pair := Some (PairName ''WETH/DAI''), timestamp := Some 0\<rparr>,
               no_fields\<lparr>opportunityId := Some ''t-0'', type := Some ''direct'',
                 pair := Some (PairName ''WETH/DAI''), timestamp := Some 0\<rparr>]\<rparr>
           [no_fields\<lparr>opportunityId := Some ''t-1'', pair := Some (PairName ''WETH/USDC''),
              timestamp := Some 1\<rparr>,
            no_fields\<lparr>opportunityId := Some ''t-1'', pair := Some (PairName ''WETH/USDC''),
              timestamp := Some 1\<rparr>,
            no_fields\<lparr>opportunityId := Some ''t-1'', pair := Some (PairName ''WETH/USDT''),
              netProfitUSD := Some (Finite (Decimal 12)), timestamp := Some 2\<rparr>])
        ''t-1'')
   = [(Some (PairName ''WETH/USDT''), Some (Finite (Decimal 12)), Some 2)]"
proof -
  let ?db = "\<lparr>isInitialized = True,
    opportunities =
      [no_fields\<lparr>opportunityId := Some ''t-1'', type := Some ''direct'',
         pair := Some (PairName ''WETH/DAI''), timestamp := Some 0\<rparr>,
       no_fields\<lparr>opportunityId := Some ''t-0'', type := Some ''direct'',
         pair := Some (PairName ''WETH/DAI''), timestamp := Some 0\<rparr>]\<rparr>"
  let ?a = "no_fields\<lparr>opportunityId := Some ''t-1'', pair := Some (PairName ''WETH/USDC''),
    timestamp := Some 1\<rparr>"
  let ?b = "no_fields\<lparr>opportunityId := Some ''t-1'', pair := Some (PairName ''WETH/USDT''),
    netProfitUSD := Some (Finite (Decimal 12)), timestamp := Some 2\<rparr>"
  have "isInitialized ?db \<and> (\<forall>x \<in> set (?a # [?a, ?b]).
      opportunityId x = Some ''t-1'' \<and> pair x \<noteq> None \<and> timestamp x \<noteq> None)"
    by simp
  with C8_storeOpportunity_one_row_per_id [of ?db ?a "''t-1''" "[?a, ?b]"]
  have "rows_with_id (foldl storeOpportunity ?db (?a # [?a, ?b])) ''t-1''
      = [params (last (?a # [?a, ?b]))]"
    by blast
  then show ?thesis by (simp add: params_fields)
qed

text \<open>
  Claim C9 (the margin).  The claim: the recorded margin is the net profit divided by
  \<open>max(1, gas cost + fee cost)\<close>, and never a division by zero.  The source divides the net
  profit by the gas cost alone.  With the default options, prices 2 and 2.1, reserves
  1000000/2100000 and 1000000/2000000 and a gas price of 1 gwei the gas cost is 0.72, the
  net profit 495.33 and the recorded margin 687.95833333333333333, not 495.33; with a gas
  price of 0 the gas cost is 0 and the recorded margin is \<^verbatim>\<open>Infinity\<close>.
\<close>

theorem C9_margin_is_not_over_max_one:
  "map_option (map_option (\<lambda>opp. (netProfitUSD opp, gasCostUSD opp, profitMargin opp)))
     (calculateArbitrageOpportunity default_options 0
       \<lparr>tokenA = ''0xTOKENA'', tokenB = ''0xTOKENB''\<rparr>
       \<lparr>dex = ''uniswap'', price0 = Decimal 2, liquidityUSD = Decimal 1000000,
        reserves = [1000000, 2100000], pairAddress = ''0xPAIR1''\<rparr>
       \<lparr>dex = ''sushiswap'', price0 = Dec 21 (- 1), liquidityUSD = Decimal 1000000,
        reserves = [1000000, 2000000], pairAddress = ''0xPAIR2''\<rparr>
       (Some 1000000000) ''latest'')
   = Some (Some (Some (Finite (Dec 49533000000000000000 (- 17))),
                 Some (Finite (Dec 72000000000000000000 (- 20))),
                 Some (Finite (Dec 68795833333333333333 (- 17)))))
   \<and> val (Dec 49533000000000000000 (- 17)) / max 1 (val (Dec 72000000000000000000 (- 20)))
       \<noteq> val (Dec 68795833333333333333 (- 17))
   \<and> map_option (map_option (\<lambda>opp. (netProfitUSD opp, gasCostUSD opp, profitMargin opp)))
     (calculateArbitrageOpportunity default_options 0
       \<lparr>tokenA = ''0xTOKENA'', tokenB = ''0xTOKENB''\<rparr>
       \<lparr>dex = ''uniswap'', price0 = Decimal 2, liquidityUSD = Decimal 1000000,
        reserves = [1000000, 2100000], pairAddress = ''0xPAIR1''\<rparr>
       \<lparr>dex = ''sushiswap'', price0 = Dec 21 (- 1), liquidityUSD = Decimal 1000000,
        reserves = [1000000, 2000000], pairAddress = ''0xPAIR2''\<rparr>
       (Some 0) ''latest'')
   = Some (Some (Some (Finite (Dec 496050000000000000 (- 15))),
                 Some (Finite (Dec 0 0)),
                 Some Infinity))"
proof (intro conjI)
  show "val (Dec 49533000000000000000 (- 17)) / max 1 (val (Dec 72000000000000000000 (- 20)))
       \<noteq> val (Dec 68795833333333333333 (- 17))"
    by (simp add: val_def)
qed (unfold calculateArbitrageOpportunity_def calculateGrossProfit_def
      generateOpportunityId_def calculateOptimalTradeSize_example,
    simp_all add: engine_eval cong: let_weak_cong option.case_cong_weak)

text \<open>
  C9 as amended: whenever \<open>calculateArbitrageOpportunity\<close> returns an opportunity and the gas
  cost is not zero, the recorded gas cost is the one of \<open>calculateGasCost\<close> and the recorded
  margin is the recorded net profit divided by that gas cost in decimal arithmetic; when
  the net profit is finite, the margin is finite and differs from the quotient of the two
  numbers by at most the \<open>5 / 10^20\<close> part of it.
\<close>

theorem C9_margin_is_net_profit_over_gas_cost:
  assumes ret: "calculateArbitrageOpportunity opts now pr buy sell gasPrice bn = Some (Some opp)"
    and gas: "val (calculateGasCost opts gasPrice) \<noteq> 0"
  shows "gasCostUSD opp = Some (Finite (calculateGasCost opts gasPrice))
    \<and> (\<exists>net. netProfitUSD opp = Some net \<and>
          profitMargin opp = Some (n_div net (Finite (calculateGasCost opts gasPrice))))
    \<and> (\<forall>n. netProfitUSD opp = Some (Finite n) \<longrightarrow>
          (\<exists>margin. profitMargin opp = Some (Finite margin) \<and>
             \<bar>val margin - val n / val (calculateGasCost opts gasPrice)\<bar>
               \<le> \<bar>val n / val (calculateGasCost opts gasPrice)\<bar> * (5 / 10 ^ 20)))"
proof -
  define g where "g = calculateGasCost opts gasPrice"
  have g: "coef g \<noteq> 0" using gas by (simp add: g_def val_eq_0_iff)
  from calculateArbitrageOpportunity_fields [OF ret] obtain net where
    f: "gasCostUSD opp = Some (Finite g)" "netProfitUSD opp = Some net"
      "profitMargin opp = Some (n_div net (Finite g))"
    unfolding g_def by blast
  have "\<exists>margin. profitMargin opp = Some (Finite margin) \<and>
      \<bar>val margin - val n / val g\<bar> \<le> \<bar>val n / val g\<bar> * (5 / 10 ^ 20)"
    if "netProfitUSD opp = Some (Finite n)" for n
  proof -
    from that f have "net = Finite n" by simp
    with f g have "profitMargin opp = Some (Finite (d_div n g))" by simp
    moreover have "\<bar>val (d_div n g) - val n / val g\<bar> \<le> \<bar>val n / val g\<bar> * (5 / 10 ^ 20)"
      using g by (rule d_div_error)
    ultimately show ?thesis by blast
  qed
  with f show ?thesis unfolding g_def [symmetric] by blast
qed

theorem C9_margin_is_net_profit_over_gas_cost_witness:
  "\<bar>val (Dec 68795833333333333333 (- 17))
      - val (Dec 49533000000000000000 (- 17)) / val (Dec 72000000000000000000 (- 20))\<bar>
     \<le> \<bar>val (Dec 49533000000000000000 (- 17)) / val (Dec 72000000000000000000 (- 20))\<bar>
       * (5 / 10 ^ 20)"
proof -
  let ?r = "calculateArbitrageOpportunity default_options 0
       \<lparr>tokenA = ''0xTOKENA'', tokenB = ''0xTOKENB''\<rparr>
       \<lparr>dex = ''uniswap'', price0 = Decimal 2, liquidityUSD = Decimal 1000000,
        reserves = [1000000, 2100000], pairAddress = ''0xPAIR1''\<rparr>
       \<lparr>dex = ''sushiswap'', price0 = Dec 21 (- 1), liquidityUSD = Decimal 1000000,
        reserves = [1000000, 2000000], pairAddress = ''0xPAIR2''\<rparr>
       (Some 1000000000) ''latest''"
  from calculateArbitrageOpportunity_example obtain opp where
    r: "?r = Some (Some opp)"
    and f: "netProfitUSD opp = Some (Finite (Dec 49533000000000000000 (- 17)))"
      "profitMargin opp = Some (Finite (Dec 68795833333333333333 (- 17)))"
    by (auto simp add: map_option_case split: option.splits)
  have g: "val (calculateGasCost default_options (Some 1000000000)) \<noteq> 0"
    by (simp add: calculateGasCost_example val_def)
  from C9_margin_is_net_profit_over_gas_cost [OF r g] f show ?thesis
    by (auto simp add: calculateGasCost_example)
qed

text \<open>
  Claim C10 (no loss reported as optimal).  The claim: whenever \<open>findOptimalTradeSize\<close>
  returns, the returned \<open>maxProfit\<close> is at least 0, and if no probed amount in
  \<open>[1, maxAmount]\<close> has a strictly positive net profit it returns \<open>optimalAmount = 0\<close> and
  \<open>maxProfit = 0\<close>.  The midpoint \<^verbatim>\<open>low.add(high).div(2).floor()\<close> is computed with 20
  significant digits, so for a 20-digit \<open>maxAmount\<close> the sum \<open>low + high\<close> is rounded and the
  midpoint can leave the interval.  With \<open>maxAmount = 64389871456448143519\<close>, the pools
  64196701842078799091/2 and 1/10^30 and gas 0, every probed amount up to \<open>maxAmount\<close> makes
  the first swap return 0, so that the second one throws; the last midpoint is
  \<open>maxAmount + 1\<close>, where the profit is positive, and the function returns that amount with
  that profit.
\<close>

theorem C10_findOptimalTradeSize_reports_an_amount_beyond_maxAmount:
  "findOptimalTradeSize \<lparr>reserveIn = 64196701842078799091, reserveOut = 2\<rparr>
     \<lparr>reserveIn = 1, reserveOut = 1000000000000000000000000000000\<rparr> 64389871456448143519 0
     = Some (Decimal 64389871456448143520, Dec 49924887324557507596 10)
   \<and> 0 < val (Dec 49924887324557507596 10)
   \<and> (\<forall>m. probed \<lparr>reserveIn = 64196701842078799091, reserveOut = 2\<rparr>
          \<lparr>reserveIn = 1, reserveOut = 1000000000000000000000000000000\<rparr> (Decimal 0)
          (search_start 64389871456448143519) m \<and> val m \<le> 64389871456448143519
        \<longrightarrow> netProfitAt \<lparr>reserveIn = 64196701842078799091, reserveOut = 2\<rparr>
              \<lparr>reserveIn = 1, reserveOut = 1000000000000000000000000000000\<rparr> (Decimal 0) m = Inl InvalidAmountIn)"
proof -
  let ?A = "\<lparr>reserveIn = 64196701842078799091, reserveOut = 2\<rparr>"
  let ?B = "\<lparr>reserveIn = 1, reserveOut = 1000000000000000000000000000000\<rparr>"
  let ?t = "search_trace 64 ?A ?B (Decimal 0) [] (search_start 64389871456448143519)"
  have final: "snd ?t = \<lparr>low = Decimal 64389871456448143520, high = Decimal 64389871456448143519,
      optimalAmount = Decimal 64389871456448143520, maxProfit = Dec 49924887324557507596 10\<rparr>"
    unfolding beyond_trace by simp
  have stop: "\<not> search_continues (snd ?t)"
    unfolding final by (simp add: search_continues_def dec_eval cong: let_weak_cong)
  have run: "findOptimalTradeSize ?A ?B 64389871456448143519 0
      = Some (Decimal 64389871456448143520, Dec 49924887324557507596 10)"
    unfolding findOptimalTradeSize_def search_trace_loop [OF stop] final by simp
  have ne: "fst ?t \<noteq> []" and lst: "last (fst ?t) = Decimal 64389871456448143520"
    unfolding beyond_trace by simp_all
  have fails: "netProfitAt ?A ?B (Decimal 0) m = Inl InvalidAmountIn"
    if "probed ?A ?B (Decimal 0) (search_start 64389871456448143519) m"
      "val m \<le> 64389871456448143519" for m
  proof -
    from that(1) have "m \<in> set (fst ?t)" using search_trace_probed [OF stop] by simp
    then have "m \<in> set (butlast (fst ?t) @ [last (fst ?t)])" using ne by simp
    then have "m \<in> set (butlast (fst ?t)) \<or> m = Decimal 64389871456448143520"
      using lst by auto
    moreover have "m \<noteq> Decimal 64389871456448143520" using that(2) by auto
    ultimately have "m \<in> set (butlast (fst ?t))" by simp
    with beyond_in_range show ?thesis by (simp add: list_all_iff)
  qed
  have "0 < val (Dec 49924887324557507596 10)" by (simp add: val_def)
  with run fails show ?thesis by blast
qed

theorem C10_findOptimalTradeSize_reports_an_amount_beyond_maxAmount_witness:
  "netProfitAt \<lparr>reserveIn = 64196701842078799091, reserveOut = 2\<rparr>
     \<lparr>reserveIn = 1, reserveOut = 1000000000000000000000000000000\<rparr> (Decimal 0) (Decimal 32194935728224071760) = Inl InvalidAmountIn"
proof -
  let ?A = "\<lparr>reserveIn = 64196701842078799091, reserveOut = 2\<rparr>"
  let ?B = "\<lparr>reserveIn = 1, reserveOut = 1000000000000000000000000000000\<rparr>"
  have "search_continues (search_start 64389871456448143519)"
    by (simp add: search_continues_def search_start_def dec_eval cong: let_weak_cong)
  then have "probed ?A ?B (Decimal 0) (search_start 64389871456448143519)
      (midpoint (search_start 64389871456448143519))"
    by (rule probed.here)
  moreover have "midpoint (search_start 64389871456448143519) = Decimal 32194935728224071760"
    by (simp add: midpoint_def search_start_def dec_eval cong: let_weak_cong)
  ultimately have "probed ?A ?B (Decimal 0) (search_start 64389871456448143519)
      (Decimal 32194935728224071760)" by simp
  moreover have "val (Decimal 32194935728224071760) \<le> 64389871456448143519" by simp
  ultimately show ?thesis
    using C10_findOptimalTradeSize_reports_an_amount_beyond_maxAmount by blast
qed

end
